theory Spec2Isabelle
  imports Main "HOL-Library.Char_ord" "HOL-Library.List_Lexorder" "HOL-Library.AList"
begin

section \<open>EdgeGrid request signing and credential resolution\<close>

text \<open>
  A shallow embedding of the signing engine (package \<open>akamai\<close>: \<open>Signer\<close>, \<open>signingCtx\<close>)
  and of the credential subsystem (package \<open>credentials\<close>) of the Akamai SDK for Go.
  The signer is modelled in its later revision, the one with \<open>HeadersToSign\<close>, \<open>MaxBody\<close>,
  \<open>Timestamp\<close> and \<open>Nonce\<close>; the earlier revision in \<^verbatim>\<open>akamai/authentication.go\<close> follows it
  under names that end in \<open>_authentication_go\<close>.

  Go strings are byte sequences and are modelled as \<open>string\<close> (a \<open>char list\<close>, one
  \<open>char\<close> per byte); \<open>len\<close> is \<open>length\<close>. Where the code works on runes (\<open>range\<close> over
  a string, \<open>string(c)\<close>, \<open>unicode.IsSpace\<close>, \<open>strings.TrimSpace\<close>) the model decodes and
  encodes UTF-8 as Go does, invalid bytes included. Go's multiple return values
  \<open>(v, err)\<close> are pairs whose second component is an \<open>error option\<close>, \<open>None\<close> being \<open>nil\<close>.
  A run-time panic is the \<open>Inl\<close> of a sum. A field or type whose name is taken already
  carries a prefix (\<open>ctx_Request\<close>, \<open>ctx_Body\<close>, \<open>url_Host\<close>).
\<close>

subsection \<open>Library functions on strings\<close>

text \<open>\<open>strings.Join(elems, sep)\<close>.\<close>

fun strings_Join :: "string list \<Rightarrow> string \<Rightarrow> string" where
  "strings_Join [] sep = []"
| "strings_Join [x] sep = x"
| "strings_Join (x # y # ys) sep = x @ sep @ strings_Join (y # ys) sep"

definition tab :: string where
  "tab = [CHR 0x09]"

text \<open>
  What the code calls in the standard library and the model takes as given: SHA-256,
  HMAC-SHA256 (key first, then message), standard base64 encoding, the parsing of a raw
  query, and \<open>strings.Map(unicode.ToLower, s)\<close>, the path \<open>strings.ToLower\<close> takes for a
  string that is not all ASCII, which rests on the Unicode case tables.
\<close>

record stdlib =
  sha256_Sum256 :: "string \<Rightarrow> string"
  hmac_sha256 :: "string \<Rightarrow> string \<Rightarrow> string"
  base64_EncodeToString :: "string \<Rightarrow> string"
  url_ParseQuery :: "string \<Rightarrow> (string \<times> string list) list"
  strings_Map_unicode_ToLower :: "string \<Rightarrow> string"

text \<open>
  Runes are \<open>int\<close> (Go's \<open>int32\<close>). \<open>utf8_DecodeRune\<close> decodes the first rune of a
  non-empty string, given as its first byte and the rest, and returns the rune and its
  width as \<open>utf8.DecodeRuneInString\<close> and the \<open>range\<close> loop over a string do: a lead byte
  \<open>0xC2..0xF4\<close> followed by the continuation bytes its range table accepts is a rune of
  two to four bytes; any other byte above \<open>0x7F\<close> is \<open>RuneError\<close> (\<open>U+FFFD\<close>) of width one.
\<close>

definition RuneError :: int where
  "RuneError = 65533"

definition utf8_DecodeRune :: "char \<Rightarrow> string \<Rightarrow> int \<times> nat" where
  "utf8_DecodeRune c0 p =
     (let s0 = (of_char c0 :: int) in
      if s0 < 128 then (s0, 1)
      else if s0 < 194 \<or> 244 < s0 then (RuneError, 1)
      else
        (let sz = (if s0 < 224 then 2 else if s0 < 240 then 3 else 4 :: nat);
             lo = (if s0 = 224 then 160 else if s0 = 240 then 144 else 128 :: int);
             hi = (if s0 = 237 then 159 else if s0 = 244 then 143 else 191 :: int)
         in if length (c0 # p) < sz then (RuneError, 1)
            else
              (case p of
                 [] \<Rightarrow> (RuneError, 1)
               | c1 # p1 \<Rightarrow>
                   (let s1 = (of_char c1 :: int) in
                    if s1 < lo \<or> hi < s1 then (RuneError, 1)
                    else if sz \<le> 2 then ((s0 mod 32) * 64 + s1 mod 64, 2)
                    else
                      (case p1 of
                         [] \<Rightarrow> (RuneError, 1)
                       | c2 # p2 \<Rightarrow>
                           (let s2 = (of_char c2 :: int) in
                            if s2 < 128 \<or> 191 < s2 then (RuneError, 1)
                            else if sz \<le> 3
                            then ((s0 mod 16) * 4096 + (s1 mod 64) * 64 + s2 mod 64, 3)
                            else
                              (case p2 of
                                 [] \<Rightarrow> (RuneError, 1)
                               | c3 # p3 \<Rightarrow>
                                   (let s3 = (of_char c3 :: int) in
                                    if s3 < 128 \<or> 191 < s3 then (RuneError, 1)
                                    else ((s0 mod 8) * 262144 + (s1 mod 64) * 4096 +
                                          (s2 mod 64) * 64 + s3 mod 64, 4)))))))))"

text \<open>
  \<open>for _, c := range s\<close>: the runes of \<open>s\<close> from left to right, each with the bytes it was
  decoded from.
\<close>

function range_string :: "string \<Rightarrow> (int \<times> string) list" where
  "range_string [] = []"
| "range_string (c # p) =
     (fst (utf8_DecodeRune c p), take (snd (utf8_DecodeRune c p)) (c # p)) #
     range_string (drop (snd (utf8_DecodeRune c p) - 1) p)"
  by pat_completeness auto
termination
  by (relation "measure length") simp_all

definition runes :: "string \<Rightarrow> int list" where
  "runes s = map fst (range_string s)"

text \<open>
  \<open>string(c)\<close> for a rune \<open>c\<close>: its UTF-8 encoding, that of \<open>U+FFFD\<close> for a value that is
  no valid code point.
\<close>

definition string_rune :: "int \<Rightarrow> string" where
  "string_rune r =
     (if 0 \<le> r \<and> r < 128 then [char_of r]
      else if 0 \<le> r \<and> r < 2048 then [char_of (192 + r div 64), char_of (128 + r mod 64)]
      else if r < 0 \<or> 1114111 < r \<or> (55296 \<le> r \<and> r \<le> 57343)
      then [CHR 0xEF, CHR 0xBF, CHR 0xBD]
      else if r < 65536
      then [char_of (224 + r div 4096), char_of (128 + (r div 64) mod 64), char_of (128 + r mod 64)]
      else [char_of (240 + r div 262144), char_of (128 + (r div 4096) mod 64),
            char_of (128 + (r div 64) mod 64), char_of (128 + r mod 64)])"

text \<open>
  \<open>unicode.IsSpace\<close>: in Latin-1 the runes \<open>'\t'\<close>, \<open>'\n'\<close>, \<open>'\v'\<close>, \<open>'\f'\<close>, \<open>'\r'\<close>, \<open>' '\<close>,
  \<open>U+0085\<close> and \<open>U+00A0\<close>; beyond it the rest of the \<open>White_Space\<close> table: \<open>U+1680\<close>,
  \<open>U+2000..U+200A\<close>, \<open>U+2028\<close>, \<open>U+2029\<close>, \<open>U+202F\<close>, \<open>U+205F\<close> and \<open>U+3000\<close>.
\<close>

definition unicode_IsSpace :: "int \<Rightarrow> bool" where
  "unicode_IsSpace r =
     (if 0 \<le> r \<and> r \<le> 255
      then r = 9 \<or> r = 10 \<or> r = 11 \<or> r = 12 \<or> r = 13 \<or> r = 32 \<or> r = 133 \<or> r = 160
      else r = 5760 \<or> (8192 \<le> r \<and> r \<le> 8202) \<or> r = 8232 \<or> r = 8233 \<or> r = 8239 \<or>
           r = 8287 \<or> r = 12288)"

text \<open>
  \<open>strings.ToLower\<close>: a string of ASCII bytes only has \<open>'A'..'Z'\<close> moved to \<open>'a'..'z'\<close> byte
  by byte; any other string goes through \<open>strings.Map(unicode.ToLower, s)\<close>.
\<close>

definition toLower_byte :: "char \<Rightarrow> char" where
  "toLower_byte c =
     (let n = (of_char c :: int) in if 65 \<le> n \<and> n \<le> 90 then char_of (n + 32) else c)"

definition strings_ToLower :: "stdlib \<Rightarrow> string \<Rightarrow> string" where
  "strings_ToLower L s =
     (if list_all (\<lambda>c. (of_char c :: int) < 128) s then map toLower_byte s
      else strings_Map_unicode_ToLower L s)"

text \<open>
  \<open>strings.TrimSpace\<close>, that is \<open>TrimFunc(s, unicode.IsSpace)\<close>: the leading and the
  trailing runes that are white space are cut off; the other runes keep their bytes.
\<close>

definition strings_TrimSpace :: "string \<Rightarrow> string" where
  "strings_TrimSpace s =
     concat (map snd
       (rev (dropWhile (\<lambda>(r, bs). unicode_IsSpace r)
          (rev (dropWhile (\<lambda>(r, bs). unicode_IsSpace r) (range_string s))))))"

text \<open>
  \<open>fmt.Sprintf\<close> with \<open>%d\<close> and \<open>%02d\<close>: decimal digits, a minus sign for a negative number,
  zero padding to width two.
\<close>

fun decimal :: "nat \<Rightarrow> string" where
  "decimal n = (if n < 10 then [char_of (48 + n)] else decimal (n div 10) @ [char_of (48 + n mod 10)])"

declare decimal.simps [simp del]

definition fmt_d :: "int \<Rightarrow> string" where
  "fmt_d i = (if i < 0 then CHR ''-'' # decimal (nat (- i)) else decimal (nat i))"

definition fmt_02d :: "int \<Rightarrow> string" where
  "fmt_02d i =
     (if i < 0 then CHR ''-'' # decimal (nat (- i))
      else if i < 10 then CHR ''0'' # decimal (nat i)
      else decimal (nat i))"

subsection \<open>HTTP headers\<close>

text \<open>
  \<open>http.Header\<close> is \<open>map[string][]string\<close>: an association list read through \<open>map_of\<close>
  and written through \<open>AList.update\<close>. Its key set is what \<open>range\<close> enumerates, each key
  once and in no fixed order.
\<close>

type_synonym http_Header = "(string \<times> string list) list"

definition header_keys :: "http_Header \<Rightarrow> string list" where
  "header_keys h = remdups (map fst h)"

text \<open>
  \<open>textproto.CanonicalMIMEHeaderKey\<close>: a key made of header-field token bytes only gets
  an upper-case first letter and an upper-case letter after each dash, all other letters
  in lower case; any other key is returned unchanged.
\<close>

definition validHeaderFieldByte :: "char \<Rightarrow> bool" where
  "validHeaderFieldByte c =
     (let n = (of_char c :: nat) in
        (48 \<le> n \<and> n \<le> 57) \<or> (65 \<le> n \<and> n \<le> 90) \<or> (97 \<le> n \<and> n \<le> 122) \<or>
        c \<in> set ''!#$%&*+-.^_`|~'' \<or> n = 39)"

fun canonical_loop :: "bool \<Rightarrow> string \<Rightarrow> string" where
  "canonical_loop upper [] = []"
| "canonical_loop upper (c # cs) =
     (let n = (of_char c :: nat);
          c' = (if upper \<and> 97 \<le> n \<and> n \<le> 122 then char_of (n - 32)
                else if \<not> upper \<and> 65 \<le> n \<and> n \<le> 90 then char_of (n + 32)
                else c)
      in c' # canonical_loop (c' = CHR ''-'') cs)"

definition CanonicalMIMEHeaderKey :: "string \<Rightarrow> string" where
  "CanonicalMIMEHeaderKey s =
     (if list_all validHeaderFieldByte s then canonical_loop True s else s)"

text \<open>\<open>Header.Get\<close>: the first value stored under the canonical form of the key, else \<open>""\<close>.\<close>

definition Header_Get :: "http_Header \<Rightarrow> string \<Rightarrow> string" where
  "Header_Get h key =
     (case map_of h (CanonicalMIMEHeaderKey key) of
        None \<Rightarrow> []
      | Some [] \<Rightarrow> []
      | Some (v # vs) \<Rightarrow> v)"

text \<open>\<open>Header.Set\<close>: the canonical form of the key now holds exactly the one value.\<close>

definition Header_Set :: "http_Header \<Rightarrow> string \<Rightarrow> string \<Rightarrow> http_Header" where
  "Header_Set h key v = AList.update (CanonicalMIMEHeaderKey key) [v] h"

subsection \<open>Credential values and errors\<close>

record AuthValue =
  ClientSecret :: string
  ClientToken :: string
  AccessToken :: string
  Host :: string
  ProviderName :: string

text \<open>The zero value \<open>AuthValue{}\<close>.\<close>

definition AuthValue_zero :: AuthValue where
  "AuthValue_zero =
     \<lparr>ClientSecret = [], ClientToken = [], AccessToken = [], Host = [], ProviderName = []\<rparr>"

text \<open>
  The package-level error variables, one constructor each (Go compares them by identity),
  and \<open>errors.New\<close> called in place.
\<close>

datatype error =
    ErrStaticCredentialsEmpty
  | ErrClientSecretNotFoundEnv
  | ErrClientTokenNotFoundEnv
  | ErrAccessTokenNotFoundEnv
  | ErrAkamaiHostNotFoundEnv
  | ErrSharedCredentialsNotFoundFile
  | ErrSharedCredentialsProfileNotFound
  | ErrClientSecretNotFoundFile
  | ErrClientTokenNotFoundFile
  | ErrAccessTokenNotFoundFile
  | ErrAkamaiHostNotFoundFile
  | errors_New string

datatype panic = SliceBoundsOutOfRange

subsection \<open>Credential providers and the credential cache\<close>

text \<open>
  The \<open>Provider\<close> interface: the two methods of an implementation, acting on its own
  state \<open>'p\<close>. \<open>Retrieve\<close> returns Go's pair \<open>(AuthValue, error)\<close> and the new state.
\<close>

record 'p Provider =
  Retrieve :: "'p \<Rightarrow> (AuthValue \<times> error option) \<times> 'p"
  IsExpired :: "'p \<Rightarrow> bool"

text \<open>The struct \<open>Credentials\<close>; \<open>provider\<close> holds the state of the provider it points to.\<close>

record 'p Credentials =
  creds :: AuthValue
  forceRefresh :: bool
  provider :: 'p

definition NewCredentials :: "'p \<Rightarrow> 'p Credentials" where
  "NewCredentials p = \<lparr>creds = AuthValue_zero, forceRefresh = True, provider = p\<rparr>"

definition isExpired :: "'p Provider \<Rightarrow> 'p Credentials \<Rightarrow> bool" where
  "isExpired P c = (forceRefresh c \<or> IsExpired P (provider c))"

text \<open>
  \<open>Credentials.Get\<close>, one caller at a time: the check under the read lock, then the
  second check and the refresh under the write lock.
\<close>

definition Get :: "'p Provider \<Rightarrow> 'p Credentials \<Rightarrow> (AuthValue \<times> error option) \<times> 'p Credentials" where
  "Get P c =
     (if \<not> isExpired P c then ((creds c, None), c)
      else if isExpired P c then
        (case Retrieve P (provider c) of
           ((v, Some err), p') \<Rightarrow> ((AuthValue_zero, Some err), c\<lparr>provider := p'\<rparr>)
         | ((v, None), p') \<Rightarrow>
             ((v, None), c\<lparr>creds := v, forceRefresh := False, provider := p'\<rparr>))
      else ((creds c, None), c))"

definition Expire :: "'p Credentials \<Rightarrow> 'p Credentials" where
  "Expire c = c\<lparr>forceRefresh := True\<rparr>"

definition Credentials_IsExpired :: "'p Provider \<Rightarrow> 'p Credentials \<Rightarrow> bool" where
  "Credentials_IsExpired P c = isExpired P c"

subsubsection \<open>The static provider\<close>

definition StaticProviderName :: string where
  "StaticProviderName = ''StaticProvider''"

definition StaticProvider_Retrieve :: "AuthValue \<Rightarrow> (AuthValue \<times> error option) \<times> AuthValue" where
  "StaticProvider_Retrieve s =
     (if ClientSecret s = [] \<or> ClientToken s = [] \<or> AccessToken s = [] \<or> Host s = []
      then ((AuthValue_zero\<lparr>ProviderName := StaticProviderName\<rparr>, Some ErrStaticCredentialsEmpty), s)
      else let s' = (if length (ProviderName s) = 0 then s\<lparr>ProviderName := StaticProviderName\<rparr> else s)
           in ((s', None), s'))"

definition StaticProvider :: "AuthValue Provider" where
  "StaticProvider = \<lparr>Retrieve = StaticProvider_Retrieve, IsExpired = (\<lambda>s. False)\<rparr>"

definition NewStaticCredentialsFromCreds :: "AuthValue \<Rightarrow> AuthValue Credentials" where
  "NewStaticCredentialsFromCreds v = NewCredentials v"

subsubsection \<open>The process environment and the file system\<close>

text \<open>
  A parsed \<open>.edgerc\<close> file as the \<open>ini\<close> package hands it out: \<open>GetSection\<close> and \<open>GetKey\<close>
  fail on a name that is absent. \<open>os.Getenv\<close> gives \<open>""\<close> for an unset variable,
  \<open>homedir.Dir\<close> and \<open>ini.Load\<close> can fail (\<open>None\<close>).
\<close>

type_synonym ini_Section = "string \<rightharpoonup> string"
type_synonym ini_File = "string \<rightharpoonup> ini_Section"

record os =
  Getenv :: "string \<Rightarrow> string"
  homedir_Dir :: "string option"
  filepath_Join :: "string \<Rightarrow> string \<Rightarrow> string"
  ini_Load :: "string \<Rightarrow> ini_File option"

subsubsection \<open>The environment provider\<close>

definition EnvProviderName :: string where
  "EnvProviderName = ''EnvProvider''"

record EnvProvider =
  env_retrieved :: bool

definition EnvProvider_Retrieve :: "os \<Rightarrow> EnvProvider \<Rightarrow> (AuthValue \<times> error option) \<times> EnvProvider" where
  "EnvProvider_Retrieve sys e =
     (let e0 = e\<lparr>env_retrieved := False\<rparr>;
          named = AuthValue_zero\<lparr>ProviderName := EnvProviderName\<rparr>;
          cs = Getenv sys ''AKAMAI_CLIENT_SECRET''
      in if cs = [] then ((named, Some ErrClientSecretNotFoundEnv), e0)
      else let ct = Getenv sys ''AKAMAI_CLIENT_TOKEN''
      in if ct = [] then ((named, Some ErrClientTokenNotFoundEnv), e0)
      else let at = Getenv sys ''AKAMAI_ACCESS_TOKEN''
      in if at = [] then ((named, Some ErrAccessTokenNotFoundEnv), e0)
      else let ah = Getenv sys ''AKAMAI_HOST''
      in if ah = [] then ((named, Some ErrAkamaiHostNotFoundEnv), e0)
      else ((\<lparr>ClientSecret = cs, ClientToken = ct, AccessToken = at, Host = ah,
               ProviderName = EnvProviderName\<rparr>, None),
            e0\<lparr>env_retrieved := True\<rparr>))"

definition EnvProvider_IsExpired :: "EnvProvider \<Rightarrow> bool" where
  "EnvProvider_IsExpired e = (\<not> env_retrieved e)"

definition EnvProvider :: "os \<Rightarrow> EnvProvider Provider" where
  "EnvProvider sys = \<lparr>Retrieve = EnvProvider_Retrieve sys, IsExpired = EnvProvider_IsExpired\<rparr>"

subsubsection \<open>The shared-credentials (\<open>.edgerc\<close>) provider\<close>

definition SharedCredsProviderName :: string where
  "SharedCredsProviderName = ''SharedCredentialsProvider''"

record SharedCredentialsProvider =
  Filename :: string
  Profile :: string
  retrieved :: bool

definition loadProfile :: "os \<Rightarrow> string \<Rightarrow> string \<Rightarrow> AuthValue \<times> error option" where
  "loadProfile sys filename profile =
     (let named = AuthValue_zero\<lparr>ProviderName := SharedCredsProviderName\<rparr> in
      case ini_Load sys filename of
        None \<Rightarrow> (named, Some ErrSharedCredentialsNotFoundFile)
      | Some config \<Rightarrow>
     (case config profile of
        None \<Rightarrow> (named, Some ErrSharedCredentialsProfileNotFound)
      | Some iniProfile \<Rightarrow>
     (case iniProfile ''client_secret'' of
        None \<Rightarrow> (named, Some ErrClientSecretNotFoundFile)
      | Some cs \<Rightarrow>
          if length cs = 0 then (named, Some ErrClientSecretNotFoundFile) else
     (case iniProfile ''client_token'' of
        None \<Rightarrow> (named, Some ErrClientTokenNotFoundFile)
      | Some ct \<Rightarrow>
          if length ct = 0 then (named, Some ErrClientTokenNotFoundFile) else
     (case iniProfile ''access_token'' of
        None \<Rightarrow> (named, Some ErrClientTokenNotFoundFile)
      | Some at \<Rightarrow>
          if length at = 0 then (named, Some ErrClientTokenNotFoundFile) else
     (case iniProfile ''host'' of
        None \<Rightarrow> (named, Some ErrAkamaiHostNotFoundFile)
      | Some h \<Rightarrow>
          if length h = 0 then (named, Some ErrAkamaiHostNotFoundFile) else
          (\<lparr>ClientSecret = cs, ClientToken = ct, AccessToken = at, Host = h,
            ProviderName = SharedCredsProviderName\<rparr>, None)))))))"

text \<open>\<open>filename\<close> and \<open>profile\<close> store what they read from the environment in the provider.\<close>

definition filename :: "os \<Rightarrow> SharedCredentialsProvider \<Rightarrow> (string \<times> error option) \<times> SharedCredentialsProvider" where
  "filename sys p =
     (if length (Filename p) \<noteq> 0 then ((Filename p, None), p)
      else let p' = p\<lparr>Filename := Getenv sys ''AKAMAI_ENVRC_FILE''\<rparr>
      in if length (Filename p') \<noteq> 0 then ((Filename p', None), p')
      else (case homedir_Dir sys of
              None \<Rightarrow> (([], Some (errors_New ''could not find user's homedir'')), p')
            | Some home \<Rightarrow> ((filepath_Join sys home ''.edgerc'', None), p')))"

definition profile :: "os \<Rightarrow> SharedCredentialsProvider \<Rightarrow> string \<times> SharedCredentialsProvider" where
  "profile sys p =
     (let p1 = (if Profile p = [] then p\<lparr>Profile := Getenv sys ''AKAMAI_PROFILE''\<rparr> else p);
          p2 = (if Profile p1 = [] then p1\<lparr>Profile := ''default''\<rparr> else p1)
      in (Profile p2, p2))"

definition SharedCredentialsProvider_Retrieve ::
  "os \<Rightarrow> SharedCredentialsProvider \<Rightarrow> (AuthValue \<times> error option) \<times> SharedCredentialsProvider" where
  "SharedCredentialsProvider_Retrieve sys p =
     (let p0 = p\<lparr>retrieved := False\<rparr>;
          named = AuthValue_zero\<lparr>ProviderName := SharedCredsProviderName\<rparr>
      in case filename sys p0 of
           ((fname, Some err), p1) \<Rightarrow> ((named, Some err), p1)
         | ((fname, None), p1) \<Rightarrow>
             (case profile sys p1 of
                (prof, p2) \<Rightarrow>
                  (case loadProfile sys fname prof of
                     (v, Some err) \<Rightarrow> ((named, Some err), p2)
                   | (v, None) \<Rightarrow> ((v, None), p2\<lparr>retrieved := True\<rparr>))))"

definition SharedCredentialsProvider_IsExpired :: "SharedCredentialsProvider \<Rightarrow> bool" where
  "SharedCredentialsProvider_IsExpired p = (\<not> retrieved p)"

definition SharedCredentialsProvider :: "os \<Rightarrow> SharedCredentialsProvider Provider" where
  "SharedCredentialsProvider sys =
     \<lparr>Retrieve = SharedCredentialsProvider_Retrieve sys,
      IsExpired = SharedCredentialsProvider_IsExpired\<rparr>"

subsection \<open>Requests and the signer\<close>

record url =
  Scheme :: string
  url_Host :: string
  Path :: string
  RawQuery :: string

text \<open>
  \<open>http.Request\<close>: \<open>Body\<close> is \<open>None\<close> for a nil body, else the bytes the reader still
  holds (reading is taken to succeed).
\<close>

record Request =
  Method :: string
  URL :: url
  Header :: http_Header
  Body :: "string option"

text \<open>The clock (already in GMT) and the source of random UUIDs.\<close>

record time_Time =
  Year :: int
  Month :: int
  Day :: int
  Hour :: int
  Minute :: int
  Second :: int

record world =
  time_Now :: time_Time
  uuid_NewRandom :: string

text \<open>The struct \<open>Signer\<close>; the \<open>Credentials\<close> it points to are passed along with it.\<close>

record Signer =
  HeadersToSign :: "string list"
  MaxBody :: int
  Timestamp :: string
  Nonce :: string

record signingCtx =
  ctx_Request :: Request
  ctx_Body :: "string option"
  SignedHeaderVals :: "http_Header option"
  UnsignedHeaderVals :: "http_Header option"
  Query :: "(string \<times> string list) list"
  credValues :: AuthValue
  formattedTime :: string
  nonce :: string
  maxBody :: int
  headersToSign :: "string list"
  contentHash :: string
  canonicalHeaders :: string
  pathQuery :: string
  authHeaders :: string
  signedAuthHeaders :: string
  signingData :: string
  signingKey :: string
  signedHeaders :: string

definition buildTime :: "world \<Rightarrow> signingCtx \<Rightarrow> signingCtx" where
  "buildTime w ctx =
     (let t = time_Now w in
      ctx\<lparr>formattedTime :=
            fmt_d (Year t) @ fmt_02d (Month t) @ fmt_02d (Day t) @ ''T'' @
            fmt_02d (Hour t) @ '':'' @ fmt_02d (Minute t) @ '':'' @ fmt_02d (Second t) @ ''+0000''\<rparr>)"

definition buildNonce :: "world \<Rightarrow> signingCtx \<Rightarrow> signingCtx" where
  "buildNonce w ctx = ctx\<lparr>nonce := uuid_NewRandom w\<rparr>"

definition createSignature :: "stdlib \<Rightarrow> string \<Rightarrow> string \<Rightarrow> string" where
  "createSignature L data key = base64_EncodeToString L (hmac_sha256 L key data)"

definition buildSigningKey :: "stdlib \<Rightarrow> signingCtx \<Rightarrow> signingCtx" where
  "buildSigningKey L ctx =
     (let key = createSignature L (formattedTime ctx) (ClientSecret (credValues ctx))
      in ctx\<lparr>signingKey := key\<rparr>)"

definition buildSigningData :: "signingCtx \<Rightarrow> signingCtx" where
  "buildSigningData ctx =
     (let dataSign =
            [Method (ctx_Request ctx),
             Scheme (URL (ctx_Request ctx)),
             url_Host (URL (ctx_Request ctx)),
             pathQuery ctx,
             canonicalHeaders ctx,
             contentHash ctx,
             authHeaders ctx]
      in ctx\<lparr>signingData := strings_Join dataSign tab\<rparr>)"

definition buildPathQuery :: "signingCtx \<Rightarrow> signingCtx" where
  "buildPathQuery ctx =
     (if RawQuery (URL (ctx_Request ctx)) = []
      then ctx\<lparr>pathQuery := Path (URL (ctx_Request ctx))\<rparr>
      else ctx\<lparr>pathQuery := Path (URL (ctx_Request ctx)) @ ''?'' @ RawQuery (URL (ctx_Request ctx))\<rparr>)"

text \<open>
  \<open>stringMinifier\<close>: the loop over the runes of the input, with the flag \<open>white\<close> and the
  output so far; a rune that is no white space is appended as \<open>string(c)\<close>.
\<close>

fun stringMinifier_loop :: "bool \<Rightarrow> string \<Rightarrow> int list \<Rightarrow> string" where
  "stringMinifier_loop white out [] = out"
| "stringMinifier_loop white out (c # cs) =
     (if unicode_IsSpace c
      then stringMinifier_loop True (if \<not> white then out @ '' '' else out) cs
      else stringMinifier_loop False (out @ string_rune c) cs)"

definition stringMinifier :: "string \<Rightarrow> string" where
  "stringMinifier inp = stringMinifier_loop False [] (runes inp)"

text \<open>
  \<open>buildCanonicalHeaders\<close>: the keys of the header map, sorted; then, for each key, the
  loop over \<open>headersToSign\<close> that appends an entry wherever the two strings are equal.
\<close>

definition header_entry :: "stdlib \<Rightarrow> http_Header \<Rightarrow> string \<Rightarrow> string" where
  "header_entry L h k =
     (let v = strings_TrimSpace (Header_Get h k)
      in strings_ToLower L k @ '':'' @ strings_ToLower L (stringMinifier v))"

definition sign_loop ::
  "stdlib \<Rightarrow> http_Header \<Rightarrow> string \<Rightarrow> string list \<Rightarrow> string list \<Rightarrow> string list" where
  "sign_loop L h k sortedHeader signs =
     foldl (\<lambda>acc sign. if sign = k then acc @ [header_entry L h k] else acc) sortedHeader signs"

definition key_loop ::
  "stdlib \<Rightarrow> http_Header \<Rightarrow> string list \<Rightarrow> string list \<Rightarrow> string list \<Rightarrow> string list" where
  "key_loop L h signs sortedHeader ks =
     foldl (\<lambda>acc k. sign_loop L h k acc signs) sortedHeader ks"

definition buildCanonicalHeaders :: "stdlib \<Rightarrow> signingCtx \<Rightarrow> signingCtx" where
  "buildCanonicalHeaders L ctx =
     (let h = Header (ctx_Request ctx);
          unsortedHeader = sort (header_keys h);
          sortedHeader = key_loop L h (headersToSign ctx) [] unsortedHeader
      in ctx\<lparr>canonicalHeaders := strings_Join sortedHeader tab\<rparr>)"

text \<open>
  \<open>buildContentHash\<close>: the body is read to its end and put back whole; the slice
  \<open>preparedBody[0:ctx.maxBody]\<close> panics when \<open>maxBody\<close> is negative.
\<close>

definition buildContentHash :: "stdlib \<Rightarrow> signingCtx \<Rightarrow> panic + signingCtx" where
  "buildContentHash L ctx =
     (let (ctx1, preparedBody) =
            (case Body (ctx_Request ctx) of
               None \<Rightarrow> (ctx, [])
             | Some bodyBytes \<Rightarrow>
                 (ctx\<lparr>ctx_Request := (ctx_Request ctx)\<lparr>Body := Some bodyBytes\<rparr>\<rparr>, bodyBytes))
      in if Method (ctx_Request ctx1) = ''POST'' \<and> length preparedBody > 0 then
           if int (length preparedBody) > maxBody ctx1 then
             if maxBody ctx1 < 0 then Inl SliceBoundsOutOfRange
             else Inr (ctx1\<lparr>contentHash :=
                    base64_EncodeToString L (sha256_Sum256 L (take (nat (maxBody ctx1)) preparedBody))\<rparr>)
           else Inr (ctx1\<lparr>contentHash := base64_EncodeToString L (sha256_Sum256 L preparedBody)\<rparr>)
         else Inr (ctx1\<lparr>contentHash := []\<rparr>))"

definition buildAuthHeaders :: "signingCtx \<Rightarrow> signingCtx" where
  "buildAuthHeaders ctx =
     ctx\<lparr>authHeaders :=
           ''EG1-HMAC-SHA256 client_token='' @ ClientToken (credValues ctx) @
           '';access_token='' @ AccessToken (credValues ctx) @
           '';timestamp='' @ formattedTime ctx @
           '';nonce='' @ nonce ctx @ '';''\<rparr>"

text \<open>\<open>buildSignedAuthHeaders\<close> also prints the signature on standard output.\<close>

definition buildSignedAuthHeaders :: "stdlib \<Rightarrow> signingCtx \<Rightarrow> signingCtx \<times> string list" where
  "buildSignedAuthHeaders L ctx =
     (let signature = createSignature L (signingData ctx) (signingKey ctx)
      in (ctx\<lparr>signedAuthHeaders := authHeaders ctx @ ''signature='' @ signature\<rparr>, [signature]))"

text \<open>\<open>build\<close> returns its (always nil) error, the context and what was printed.\<close>

definition build :: "stdlib \<Rightarrow> world \<Rightarrow> signingCtx \<Rightarrow> panic + (error option \<times> signingCtx \<times> string list)" where
  "build L w ctx =
     (let ctx1 = (if formattedTime ctx = [] then buildTime w ctx else ctx);
          ctx2 = (if nonce ctx1 = [] then buildNonce w ctx1 else ctx1);
          ctx3 = buildPathQuery ctx2;
          ctx4 = buildCanonicalHeaders L ctx3
      in case buildContentHash L ctx4 of
           Inl p \<Rightarrow> Inl p
         | Inr ctx5 \<Rightarrow>
             (let ctx6 = buildAuthHeaders ctx5;
                  ctx7 = buildSigningKey L ctx6;
                  ctx8 = buildSigningData ctx7;
                  (ctx9, out) = buildSignedAuthHeaders L ctx8;
                  req = ctx_Request ctx9;
                  req' = req\<lparr>Header := Header_Set (Header req) ''Authorization'' (signedAuthHeaders ctx9)\<rparr>
              in Inr (None, ctx9\<lparr>ctx_Request := req'\<rparr>, out)))"

text \<open>
  What a call of \<open>Sign\<close> leaves behind: the returned pair, the request (signed in place),
  the credential cache and the standard output.
\<close>

record 'p signed =
  returned :: "http_Header option \<times> error option"
  request :: Request
  credentials :: "'p Credentials"
  stdout :: "string list"

definition Sign ::
  "stdlib \<Rightarrow> world \<Rightarrow> 'p Provider \<Rightarrow> Signer \<Rightarrow> 'p Credentials \<Rightarrow> Request \<Rightarrow> string option
     \<Rightarrow> panic + 'p signed" where
  "Sign L w P s c req body =
     (case Get P c of
        ((cv, Some err), c') \<Rightarrow>
          Inr \<lparr>returned = (Some [], Some err), request = req, credentials = c', stdout = []\<rparr>
      | ((cv, None), c') \<Rightarrow>
          (let ctx = \<lparr>ctx_Request = req, ctx_Body = body,
                      SignedHeaderVals = None, UnsignedHeaderVals = None,
                      Query = url_ParseQuery L (RawQuery (URL req)),
                      credValues = cv, formattedTime = Timestamp s, nonce = Nonce s,
                      maxBody = MaxBody s, headersToSign = HeadersToSign s,
                      contentHash = [], canonicalHeaders = [], pathQuery = [],
                      authHeaders = [], signedAuthHeaders = [], signingData = [],
                      signingKey = [], signedHeaders = []\<rparr>;
               ctx' = (if maxBody ctx = 0 then ctx\<lparr>maxBody := 131072\<rparr> else ctx)
           in case build L w ctx' of
                Inl p \<Rightarrow> Inl p
              | Inr (Some err, ctx'', out) \<Rightarrow>
                  Inr \<lparr>returned = (None, Some err), request = ctx_Request ctx'',
                       credentials = c', stdout = out\<rparr>
              | Inr (None, ctx'', out) \<Rightarrow>
                  Inr \<lparr>returned = (SignedHeaderVals ctx'', None), request = ctx_Request ctx'',
                       credentials = c', stdout = out\<rparr>))"

subsection \<open>The earlier revision of the signer\<close>

text \<open>
  \<^verbatim>\<open>akamai/authentication.go\<close> holds an earlier revision of the same file: its \<open>Signer\<close> has
  the credentials only, \<open>build\<close> always reads the clock and draws a nonce, does not call
  \<open>buildCanonicalHeaders\<close>, and caps the hashed body at the constant 131072. Its
  \<open>buildPathQuery\<close> does not return from the branch for the empty query, so the assignment
  after the branch runs in every case. \<open>buildTime\<close>, \<open>buildNonce\<close>, \<open>buildSigningKey\<close>,
  \<open>buildAuthHeaders\<close> and \<open>buildSigningData\<close> are the same in both revisions.
\<close>

definition buildPathQuery_authentication_go :: "signingCtx \<Rightarrow> signingCtx" where
  "buildPathQuery_authentication_go ctx =
     (let ctx1 = (if RawQuery (URL (ctx_Request ctx)) = []
                  then ctx\<lparr>pathQuery := Path (URL (ctx_Request ctx))\<rparr>
                  else ctx)
      in ctx1\<lparr>pathQuery := Path (URL (ctx_Request ctx1)) @ ''?'' @ RawQuery (URL (ctx_Request ctx1))\<rparr>)"

definition buildContentHash_authentication_go :: "stdlib \<Rightarrow> signingCtx \<Rightarrow> signingCtx" where
  "buildContentHash_authentication_go L ctx =
     (let (ctx1, preparedBody) =
            (case Body (ctx_Request ctx) of
               None \<Rightarrow> (ctx, [])
             | Some bodyBytes \<Rightarrow>
                 (ctx\<lparr>ctx_Request := (ctx_Request ctx)\<lparr>Body := Some bodyBytes\<rparr>\<rparr>, bodyBytes))
      in if Method (ctx_Request ctx1) = ''POST'' \<and> length preparedBody > 0 then
           (let preparedBody' =
                  (if length preparedBody > 131072 then take 131072 preparedBody else preparedBody)
            in ctx1\<lparr>contentHash := base64_EncodeToString L (sha256_Sum256 L preparedBody')\<rparr>)
         else ctx1)"

definition buildSignedAuthHeaders_authentication_go :: "stdlib \<Rightarrow> signingCtx \<Rightarrow> signingCtx" where
  "buildSignedAuthHeaders_authentication_go L ctx =
     (let signature = createSignature L (signingData ctx) (signingKey ctx)
      in ctx\<lparr>signedAuthHeaders := authHeaders ctx @ ''signature='' @ signature\<rparr>)"

definition build_authentication_go :: "stdlib \<Rightarrow> world \<Rightarrow> signingCtx \<Rightarrow> error option \<times> signingCtx" where
  "build_authentication_go L w ctx =
     (let ctx1 = buildTime w ctx;
          ctx2 = buildNonce w ctx1;
          ctx3 = buildPathQuery_authentication_go ctx2;
          ctx4 = buildSigningKey L ctx3;
          ctx5 = buildContentHash_authentication_go L ctx4;
          ctx6 = buildAuthHeaders ctx5;
          ctx7 = buildSigningData ctx6;
          ctx8 = buildSignedAuthHeaders_authentication_go L ctx7;
          req = ctx_Request ctx8;
          req' = req\<lparr>Header := Header_Set (Header req) ''Authorization'' (signedAuthHeaders ctx8)\<rparr>
      in (None, ctx8\<lparr>ctx_Request := req'\<rparr>))"

definition Sign_authentication_go ::
  "stdlib \<Rightarrow> world \<Rightarrow> 'p Provider \<Rightarrow> 'p Credentials \<Rightarrow> Request \<Rightarrow> string option
     \<Rightarrow> (http_Header option \<times> error option) \<times> Request \<times> 'p Credentials" where
  "Sign_authentication_go L w P c req body =
     (case Get P c of
        ((cv, Some err), c') \<Rightarrow> ((Some [], Some err), req, c')
      | ((cv, None), c') \<Rightarrow>
          (let ctx = \<lparr>ctx_Request = req, ctx_Body = body,
                      SignedHeaderVals = None, UnsignedHeaderVals = None,
                      Query = url_ParseQuery L (RawQuery (URL req)),
                      credValues = cv, formattedTime = [], nonce = [],
                      maxBody = 0, headersToSign = [],
                      contentHash = [], canonicalHeaders = [], pathQuery = [],
                      authHeaders = [], signedAuthHeaders = [], signingData = [],
                      signingKey = [], signedHeaders = []\<rparr>
           in case build_authentication_go L w ctx of
                (Some err, ctx') \<Rightarrow> ((None, Some err), ctx_Request ctx', c')
              | (None, ctx') \<Rightarrow> ((SignedHeaderVals ctx', None), ctx_Request ctx', c')))"

subsection \<open>The stages of \<open>build\<close>\<close>

text \<open>
  \<open>build\<close> cut at the one step that can panic: what runs before the path, the headers and
  the content hash are computed, and what runs after them.
\<close>

definition build_start :: "world \<Rightarrow> signingCtx \<Rightarrow> signingCtx" where
  "build_start w ctx =
     (let ctx1 = (if formattedTime ctx = [] then buildTime w ctx else ctx)
      in if nonce ctx1 = [] then buildNonce w ctx1 else ctx1)"

definition build_finish :: "stdlib \<Rightarrow> signingCtx \<Rightarrow> signingCtx" where
  "build_finish L ctx5 =
     (let ctx9 = fst (buildSignedAuthHeaders L (buildSigningData (buildSigningKey L (buildAuthHeaders ctx5))))
      in ctx9\<lparr>ctx_Request := (ctx_Request ctx9)\<lparr>Header :=
           Header_Set (Header (ctx_Request ctx9)) ''Authorization'' (signedAuthHeaders ctx9)\<rparr>\<rparr>)"

subsection \<open>Example inputs\<close>

text \<open>
  Stand-ins for the digest, the MAC and the encoding that keep their arguments visible,
  the lower-casing of the letters of ASCII and Latin-1 rune by rune for
  \<open>strings.Map(unicode.ToLower, s)\<close>, the clock and nonce of the test suite, and a request
  to the test host.
\<close>

definition example_Map_ToLower :: "string \<Rightarrow> string" where
  "example_Map_ToLower s =
     concat (map (\<lambda>(r, bs).
                string_rune (if (65 \<le> r \<and> r \<le> 90) \<or> (192 \<le> r \<and> r \<le> 222 \<and> r \<noteq> 215)
                             then r + 32 else r))
             (range_string s))"

definition example_stdlib :: stdlib where
  "example_stdlib =
     \<lparr>sha256_Sum256 = (\<lambda>b. ''sha256('' @ b @ '')''),
      hmac_sha256 = (\<lambda>k m. ''hmac('' @ k @ '','' @ m @ '')''),
      base64_EncodeToString = (\<lambda>b. ''base64('' @ b @ '')''),
      url_ParseQuery = (\<lambda>q. []),
      strings_Map_unicode_ToLower = example_Map_ToLower\<rparr>"

definition example_world :: world where
  "example_world =
     \<lparr>time_Now = \<lparr>Year = 2014, Month = 3, Day = 21, Hour = 19, Minute = 34, Second = 21\<rparr>,
      uuid_NewRandom = ''nonce-xx-xxxx-xxxx-xxxx-xxxxxxxxxxxx''\<rparr>"

definition example_creds :: AuthValue where
  "example_creds =
     \<lparr>ClientSecret = ''secret'', ClientToken = ''akab-client-token'',
      AccessToken = ''akab-access-token'', Host = ''akaa-baseurl.luna.akamaiapis.net'',
      ProviderName = ''StaticProvider''\<rparr>"

definition example_request :: "string \<Rightarrow> string \<Rightarrow> http_Header \<Rightarrow> string option \<Rightarrow> Request" where
  "example_request m q h b =
     \<lparr>Method = m,
      URL = \<lparr>Scheme = ''https'', url_Host = ''akaa-baseurl.luna.akamaiapis.net'',
             Path = ''/testapi/v1/t1'', RawQuery = q\<rparr>,
      Header = h, Body = b\<rparr>"

definition example_ctx :: "Request \<Rightarrow> string list \<Rightarrow> int \<Rightarrow> signingCtx" where
  "example_ctx req signs m =
     \<lparr>ctx_Request = req, ctx_Body = None, SignedHeaderVals = None, UnsignedHeaderVals = None,
      Query = [], credValues = example_creds, formattedTime = [], nonce = [],
      maxBody = m, headersToSign = signs,
      contentHash = [], canonicalHeaders = [], pathQuery = [], authHeaders = [],
      signedAuthHeaders = [], signingData = [], signingKey = [], signedHeaders = []\<rparr>"

subsection \<open>The canonical headers as the specification words them\<close>

text \<open>
  Every run of white-space runes becomes one space; and the canonical headers of the
  specification: the headers whose name matches the list without regard to case, sorted,
  each rendered in lower case with its value trimmed and collapsed, joined by tabs.
\<close>

function collapse_spaces :: "int list \<Rightarrow> int list" where
  "collapse_spaces [] = []"
| "collapse_spaces (c # cs) =
     (if unicode_IsSpace c then 32 # collapse_spaces (dropWhile unicode_IsSpace cs)
      else c # collapse_spaces cs)"
  by pat_completeness auto
termination
  by (relation "measure length") (auto simp add: length_dropWhile_le less_Suc_eq_le)

definition string_runes :: "int list \<Rightarrow> string" where
  "string_runes rs = concat (map string_rune rs)"

definition canonicalHeaders_spec :: "stdlib \<Rightarrow> http_Header \<Rightarrow> string list \<Rightarrow> string" where
  "canonicalHeaders_spec L h signs =
     strings_Join
       (map (\<lambda>k. strings_ToLower L k @ '':'' @
                 strings_ToLower L
                   (string_runes (collapse_spaces (runes (strings_TrimSpace (Header_Get h k))))))
            (sort (filter (\<lambda>k. \<exists>s \<in> set signs. strings_ToLower L s = strings_ToLower L k)
                     (header_keys h))))
       tab"

text \<open>
  Request headers with white space of several kinds in their values: spaces, a tab, and
  the no-break space \<open>U+00A0\<close> and the ideographic space \<open>U+3000\<close> in UTF-8.
\<close>

definition example_headers :: http_Header where
  "example_headers =
     [(''X-Test2'', [[CHR 0xC2, CHR 0xA0] @ '' Two '' @ [CHR 0xE3, CHR 0x80, CHR 0x80] @ ''  spaces '']),
      (''Host'', [''example.org'']),
      (''X-Test1'', [''A'' @ tab @ '' b''])]"

subsection \<open>The context \<open>Sign\<close> builds on\<close>

text \<open>
  The composite literal of \<open>Sign\<close> with the default for \<open>maxBody\<close> applied, and the bytes
  \<open>ioutil.ReadAll\<close> gets from the body of a request.
\<close>

definition Sign_ctx :: "stdlib \<Rightarrow> Signer \<Rightarrow> AuthValue \<Rightarrow> Request \<Rightarrow> string option \<Rightarrow> signingCtx" where
  "Sign_ctx L s cv req body =
     (let ctx = \<lparr>ctx_Request = req, ctx_Body = body,
                 SignedHeaderVals = None, UnsignedHeaderVals = None,
                 Query = url_ParseQuery L (RawQuery (URL req)),
                 credValues = cv, formattedTime = Timestamp s, nonce = Nonce s,
                 maxBody = MaxBody s, headersToSign = HeadersToSign s,
                 contentHash = [], canonicalHeaders = [], pathQuery = [],
                 authHeaders = [], signedAuthHeaders = [], signingData = [],
                 signingKey = [], signedHeaders = []\<rparr>
      in if maxBody ctx = 0 then ctx\<lparr>maxBody := 131072\<rparr> else ctx)"

definition request_bytes :: "Request \<Rightarrow> string" where
  "request_bytes req = (case Body req of None \<Rightarrow> [] | Some bodyBytes \<Rightarrow> bodyBytes)"

text \<open>
  What the specification says of a successful \<open>Sign\<close>: it returns the header set of the
  request, with \<open>Authorization\<close> set.
\<close>

definition returns_signed_headers :: "'p signed \<Rightarrow> bool" where
  "returns_signed_headers r =
     (\<exists>hs. fst (returned r) = Some hs \<and> map_of hs = map_of (Header (request r)) \<and>
           map_of hs ''Authorization'' \<noteq> None)"

text \<open>A signer with the timestamp and nonce of the test suite, and the cache after one \<open>Get\<close>.\<close>

definition example_signer :: "string list \<Rightarrow> int \<Rightarrow> Signer" where
  "example_signer signs m =
     \<lparr>HeadersToSign = signs, MaxBody = m,
      Timestamp = ''20140321T19:34:21+0000'', Nonce = ''nonce-xx-xxxx-xxxx-xxxx-xxxxxxxxxxxx''\<rparr>"

definition example_cache :: "AuthValue Credentials" where
  "example_cache = \<lparr>creds = example_creds, forceRefresh = False, provider = example_creds\<rparr>"

definition example_world2 :: world where
  "example_world2 =
     \<lparr>time_Now = \<lparr>Year = 2019, Month = 12, Day = 1, Hour = 0, Minute = 0, Second = 59\<rparr>,
      uuid_NewRandom = ''6ba7b810-9dad-11d1-80b4-00c04fd430c8''\<rparr>"

subsection \<open>The provider of the test suite\<close>

text \<open>
  \<open>stubProvider\<close> of \<^verbatim>\<open>credentials_test.go\<close>: \<open>Retrieve\<close> clears \<open>expired\<close>, names the
  provider and returns the stored credentials with the stored error.
\<close>

record stubProvider =
  stub_creds :: AuthValue
  stub_expired :: bool
  stub_err :: "error option"

definition stubProvider_Retrieve :: "stubProvider \<Rightarrow> (AuthValue \<times> error option) \<times> stubProvider" where
  "stubProvider_Retrieve s =
     (let s1 = s\<lparr>stub_expired := False\<rparr>;
          s2 = s1\<lparr>stub_creds := (stub_creds s1)\<lparr>ProviderName := ''stubProvider''\<rparr>\<rparr>
      in ((stub_creds s2, stub_err s2), s2))"

definition stubProvider :: "stubProvider Provider" where
  "stubProvider = \<lparr>Retrieve = stubProvider_Retrieve, IsExpired = stub_expired\<rparr>"

text \<open>
  A cache that was filled once and whose provider has expired since, with a refresh that
  fails; and a home directory whose \<^verbatim>\<open>.edgerc\<close> holds the one profile \<open>default\<close>.
\<close>

definition example_stale_cache :: "stubProvider Credentials" where
  "example_stale_cache =
     \<lparr>creds = example_creds, forceRefresh = False,
      provider = \<lparr>stub_creds = example_creds, stub_expired = True,
                  stub_err = Some (errors_New ''token service unavailable'')\<rparr>\<rparr>"

definition example_os :: "ini_Section \<Rightarrow> os" where
  "example_os section =
     \<lparr>Getenv = (\<lambda>name. []),
      homedir_Dir = Some ''/home/user'',
      filepath_Join = (\<lambda>dir name. dir @ ''/'' @ name),
      ini_Load = (\<lambda>name. if name = ''/home/user/.edgerc'' then Some [''default'' \<mapsto> section] else None)\<rparr>"

definition example_provider :: SharedCredentialsProvider where
  "example_provider = \<lparr>Filename = [], Profile = [], retrieved = False\<rparr>"

subsection \<open>Concurrent callers of \<open>Get\<close>\<close>

text \<open>
  \<open>Get\<close> runs in two critical sections of the \<open>sync.RWMutex\<close>: the check under the read
  lock, and the second check with the refresh under the write lock. The write lock
  excludes every other section and the sections under the read lock only read, so a
  concurrent execution of several callers is a sequence of whole sections, in some order.
  A caller is about to take the read lock, waits for the write lock, or has returned;
  \<open>step\<close> lets one caller run its next section, \<open>run\<close> follows a schedule of caller
  indices, and \<open>retrieve_calls\<close> counts the invocations of the provider's \<open>Retrieve\<close>.
\<close>

datatype caller = AtReadLock | AtWriteLock | Returned "AuthValue \<times> error option"

record 'p callers_state =
  cache :: "'p Credentials"
  callers :: "caller list"
  retrieve_calls :: nat

definition Get_read_section :: "'p Provider \<Rightarrow> 'p Credentials \<Rightarrow> caller" where
  "Get_read_section P c =
     (if \<not> isExpired P c then Returned (creds c, None) else AtWriteLock)"

definition Get_write_section ::
  "'p Provider \<Rightarrow> 'p Credentials \<Rightarrow> nat \<Rightarrow> caller \<times> 'p Credentials \<times> nat" where
  "Get_write_section P c n =
     (if isExpired P c then
        (case Retrieve P (provider c) of
           ((v, Some err), p') \<Rightarrow> (Returned (AuthValue_zero, Some err), c\<lparr>provider := p'\<rparr>, Suc n)
         | ((v, None), p') \<Rightarrow>
             (Returned (v, None), c\<lparr>creds := v, forceRefresh := False, provider := p'\<rparr>, Suc n))
      else (Returned (creds c, None), c, n))"

definition step :: "'p Provider \<Rightarrow> nat \<Rightarrow> 'p callers_state \<Rightarrow> 'p callers_state" where
  "step P i st =
     (if i < length (callers st) then
        (case callers st ! i of
           AtReadLock \<Rightarrow> st\<lparr>callers := (callers st)[i := Get_read_section P (cache st)]\<rparr>
         | AtWriteLock \<Rightarrow>
             (case Get_write_section P (cache st) (retrieve_calls st) of
                (k, c', n') \<Rightarrow>
                  st\<lparr>cache := c', callers := (callers st)[i := k], retrieve_calls := n'\<rparr>)
         | Returned r \<Rightarrow> st)
      else st)"

fun run :: "'p Provider \<Rightarrow> nat list \<Rightarrow> 'p callers_state \<Rightarrow> 'p callers_state" where
  "run P [] st = st"
| "run P (i # sched) st = run P sched (step P i st)"

text \<open>\<open>N\<close> callers entering \<open>Get\<close> on the cache \<open>c\<close>, and the states in which all have returned.\<close>

definition concurrent_Get :: "'p Credentials \<Rightarrow> nat \<Rightarrow> 'p callers_state" where
  "concurrent_Get c N = \<lparr>cache = c, callers = replicate N AtReadLock, retrieve_calls = 0\<rparr>"

definition all_returned :: "'p callers_state \<Rightarrow> bool" where
  "all_returned st = list_all (\<lambda>k. k \<noteq> AtReadLock \<and> k \<noteq> AtWriteLock) (callers st)"

text \<open>
  The two invariants of a run: after a first successful refresh nobody refreshes again;
  while the flag is set and \<open>Retrieve\<close> fails, every caller that has returned has called it.
\<close>

definition refreshed_once ::
  "'p Credentials \<Rightarrow> AuthValue \<Rightarrow> 'p \<Rightarrow> 'p callers_state \<Rightarrow> bool" where
  "refreshed_once c v p' st =
     ((retrieve_calls st = 0 \<and> cache st = c \<and>
       list_all (\<lambda>k. k = AtReadLock \<or> k = AtWriteLock) (callers st)) \<or>
      (retrieve_calls st = 1 \<and>
       cache st = c\<lparr>creds := v, forceRefresh := False, provider := p'\<rparr> \<and>
       list_all (\<lambda>k. k = AtReadLock \<or> k = AtWriteLock \<or> k = Returned (v, None)) (callers st)))"

definition refresh_failing :: "'p callers_state \<Rightarrow> bool" where
  "refresh_failing st =
     (forceRefresh (cache st) \<and>
      retrieve_calls st = length (filter (\<lambda>k. k \<noteq> AtReadLock \<and> k \<noteq> AtWriteLock) (callers st)) \<and>
      list_all (\<lambda>k. k = AtReadLock \<or> k = AtWriteLock \<or>
                    (\<exists>e. k = Returned (AuthValue_zero, Some e))) (callers st))"

section \<open>Properties of the signing context\<close>

subsection \<open>How \<open>build\<close> assembles its fields\<close>

lemma ctx_Request_Body_restore:
  assumes "Body (ctx_Request c) = Some a"
  shows "c\<lparr>ctx_Request := (ctx_Request c)\<lparr>Body := Some a\<rparr>\<rparr> = c"
proof -
  have "(ctx_Request c)\<lparr>Body := Some a\<rparr> = (ctx_Request c)\<lparr>Body := Body (ctx_Request c)\<rparr>"
    by (simp only: assms)
  then show ?thesis by simp
qed

lemma buildContentHash_Inr:
  assumes "buildContentHash L c = Inr c'"
  shows "\<exists>h. c' = c\<lparr>contentHash := h\<rparr>"
proof (cases "Body (ctx_Request c)")
  case None
  with assms show ?thesis
    by (auto simp add: buildContentHash_def split: if_splits)
next
  case (Some a)
  with assms show ?thesis
    by (auto simp add: buildContentHash_def ctx_Request_Body_restore split: if_splits)
qed

lemma build_start_sel [simp]:
  "ctx_Request (build_start w ctx) = ctx_Request ctx"
  "credValues (build_start w ctx) = credValues ctx"
  "headersToSign (build_start w ctx) = headersToSign ctx"
  "maxBody (build_start w ctx) = maxBody ctx"
  "ctx_Body (build_start w ctx) = ctx_Body ctx"
  "SignedHeaderVals (build_start w ctx) = SignedHeaderVals ctx"
  by (simp_all add: build_start_def buildTime_def buildNonce_def Let_def)

lemma build_unfold:
  "build L w ctx =
     (case buildContentHash L (buildCanonicalHeaders L (buildPathQuery (build_start w ctx))) of
        Inl p \<Rightarrow> Inl p
      | Inr ctx5 \<Rightarrow> Inr (None, build_finish L ctx5,
           snd (buildSignedAuthHeaders L (buildSigningData (buildSigningKey L (buildAuthHeaders ctx5))))))"
  unfolding build_def build_start_def build_finish_def Let_def
  by (simp add: split_beta split: sum.split)

lemma build_Inr:
  assumes "build L w ctx = Inr (err, ctx', out)"
  obtains h where
    "buildContentHash L (buildCanonicalHeaders L (buildPathQuery (build_start w ctx))) =
       Inr ((buildCanonicalHeaders L (buildPathQuery (build_start w ctx)))\<lparr>contentHash := h\<rparr>)"
    "err = None"
    "ctx' = build_finish L ((buildCanonicalHeaders L (buildPathQuery (build_start w ctx)))\<lparr>contentHash := h\<rparr>)"
proof -
  let ?c4 = "buildCanonicalHeaders L (buildPathQuery (build_start w ctx))"
  from assms obtain ctx5 where c5: "buildContentHash L ?c4 = Inr ctx5"
    and e: "err = None" and c: "ctx' = build_finish L ctx5"
    by (auto simp add: build_unfold split: sum.splits)
  from buildContentHash_Inr [OF c5] obtain h where "ctx5 = ?c4\<lparr>contentHash := h\<rparr>" ..
  with c5 e c show thesis by (intro that [of h]) simp_all
qed

lemma build_finish_sel:
  "signingData (build_finish L c) =
     Method (ctx_Request c) @ tab @ Scheme (URL (ctx_Request c)) @ tab @
     url_Host (URL (ctx_Request c)) @ tab @ pathQuery c @ tab @
     canonicalHeaders c @ tab @ contentHash c @ tab @ authHeaders (build_finish L c)"
  "pathQuery (build_finish L c) = pathQuery c"
  "canonicalHeaders (build_finish L c) = canonicalHeaders c"
  "contentHash (build_finish L c) = contentHash c"
  "formattedTime (build_finish L c) = formattedTime c"
  "nonce (build_finish L c) = nonce c"
  "credValues (build_finish L c) = credValues c"
  "SignedHeaderVals (build_finish L c) = SignedHeaderVals c"
  "signingKey (build_finish L c) =
     base64_EncodeToString L (hmac_sha256 L (ClientSecret (credValues c)) (formattedTime c))"
  "signedAuthHeaders (build_finish L c) =
     authHeaders (build_finish L c) @ ''signature='' @
     base64_EncodeToString L
       (hmac_sha256 L (signingKey (build_finish L c)) (signingData (build_finish L c)))"
  "ctx_Request (build_finish L c) =
     (ctx_Request c)\<lparr>Header :=
        Header_Set (Header (ctx_Request c)) ''Authorization'' (signedAuthHeaders (build_finish L c))\<rparr>"
  by (simp_all add: build_finish_def Let_def buildSignedAuthHeaders_def buildSigningData_def
        buildSigningKey_def buildAuthHeaders_def createSignature_def)

lemma build_middle_sel [simp]:
  "ctx_Request ((buildCanonicalHeaders L (buildPathQuery c))\<lparr>contentHash := h\<rparr>) = ctx_Request c"
  "credValues ((buildCanonicalHeaders L (buildPathQuery c))\<lparr>contentHash := h\<rparr>) = credValues c"
  "formattedTime ((buildCanonicalHeaders L (buildPathQuery c))\<lparr>contentHash := h\<rparr>) = formattedTime c"
  "nonce ((buildCanonicalHeaders L (buildPathQuery c))\<lparr>contentHash := h\<rparr>) = nonce c"
  "SignedHeaderVals ((buildCanonicalHeaders L (buildPathQuery c))\<lparr>contentHash := h\<rparr>) = SignedHeaderVals c"
  "contentHash ((buildCanonicalHeaders L (buildPathQuery c))\<lparr>contentHash := h\<rparr>) = h"
  by (simp_all add: buildCanonicalHeaders_def buildPathQuery_def Let_def)

text \<open>The string-to-sign of the finished context, field by field.\<close>

lemma build_Inr_signingData:
  assumes "build L w ctx = Inr (err, ctx', out)"
  shows "signingData ctx' =
     Method (ctx_Request ctx) @ tab @ Scheme (URL (ctx_Request ctx)) @ tab @
     url_Host (URL (ctx_Request ctx)) @ tab @ pathQuery ctx' @ tab @
     canonicalHeaders ctx' @ tab @ contentHash ctx' @ tab @ authHeaders ctx'"
proof -
  from assms obtain h where
    c: "ctx' = build_finish L ((buildCanonicalHeaders L (buildPathQuery (build_start w ctx)))\<lparr>contentHash := h\<rparr>)"
    by (rule build_Inr)
  show ?thesis
    unfolding c build_finish_sel build_middle_sel build_start_sel ..
qed

subsection \<open>The string-to-sign\<close>

text \<open>
  Claim C1. Whenever \<open>build\<close> returns, the string-to-sign of the finished context is the
  HTTP method, the URL scheme, the URL host, the canonical path and query, the canonical
  headers, the content hash and the auth-header preamble, in this order, with one tab
  between neighbours: seven fields and six tabs, an empty field still between its tabs.
\<close>

theorem build_signingData:
  assumes "build L w ctx = Inr (err, ctx', out)"
  shows "signingData ctx' =
     Method (ctx_Request ctx) @ tab @ Scheme (URL (ctx_Request ctx)) @ tab @
     url_Host (URL (ctx_Request ctx)) @ tab @ pathQuery ctx' @ tab @
     canonicalHeaders ctx' @ tab @ contentHash ctx' @ tab @ authHeaders ctx'"
  using assms by (rule build_Inr_signingData)

text \<open>The same on a GET request without headers to sign: the two empty fields keep their tabs.\<close>

theorem build_signingData_witness:
  "build example_stdlib example_world (example_ctx (example_request ''GET'' [] [] None) [] 0) =
     Inr (None,
          fst (snd (projr (build example_stdlib example_world (example_ctx (example_request ''GET'' [] [] None) [] 0)))),
          snd (snd (projr (build example_stdlib example_world (example_ctx (example_request ''GET'' [] [] None) [] 0))))) \<and>
   signingData (fst (snd (projr (build example_stdlib example_world (example_ctx (example_request ''GET'' [] [] None) [] 0))))) =
     ''GET'' @ tab @ ''https'' @ tab @ ''akaa-baseurl.luna.akamaiapis.net'' @ tab @
     ''/testapi/v1/t1'' @ tab @ [] @ tab @ [] @ tab @
     ''EG1-HMAC-SHA256 client_token=akab-client-token;access_token=akab-access-token;timestamp=20140321T19:34:21+0000;nonce=nonce-xx-xxxx-xxxx-xxxx-xxxxxxxxxxxx;''"
proof -
  let ?c = "example_ctx (example_request ''GET'' [] [] None) [] 0"
  let ?b = "build example_stdlib example_world ?c"
  let ?x = "fst (snd (projr ?b))"
  have n: "\<not> isl ?b" by code_simp
  have e: "fst (projr ?b) = None" by code_simp
  from n e have b: "?b = Inr (None, ?x, snd (snd (projr ?b)))"
    by (cases ?b) auto
  have m: "Method (ctx_Request ?c) = ''GET''" "Scheme (URL (ctx_Request ?c)) = ''https''"
    "url_Host (URL (ctx_Request ?c)) = ''akaa-baseurl.luna.akamaiapis.net''"
    by (simp_all add: example_ctx_def example_request_def)
  have p: "pathQuery ?x = ''/testapi/v1/t1''" by code_simp
  have q: "canonicalHeaders ?x = []" by code_simp
  have r: "contentHash ?x = []" by code_simp
  have s: "authHeaders ?x = ''EG1-HMAC-SHA256 client_token=akab-client-token;access_token=akab-access-token;timestamp=20140321T19:34:21+0000;nonce=nonce-xx-xxxx-xxxx-xxxx-xxxxxxxxxxxx;''"
    by code_simp
  have "signingData ?x = Method (ctx_Request ?c) @ tab @ Scheme (URL (ctx_Request ?c)) @ tab @
     url_Host (URL (ctx_Request ?c)) @ tab @ pathQuery ?x @ tab @
     canonicalHeaders ?x @ tab @ contentHash ?x @ tab @ authHeaders ?x"
    by (rule build_signingData [OF b])
  then have "signingData ?x = ''GET'' @ tab @ ''https'' @ tab @ ''akaa-baseurl.luna.akamaiapis.net'' @ tab @
     ''/testapi/v1/t1'' @ tab @ [] @ tab @ [] @ tab @
     ''EG1-HMAC-SHA256 client_token=akab-client-token;access_token=akab-access-token;timestamp=20140321T19:34:21+0000;nonce=nonce-xx-xxxx-xxxx-xxxx-xxxxxxxxxxxx;''"
    by (simp only: m p q r s)
  with b show ?thesis by (rule conjI)
qed

subsection \<open>The signing key and the signature\<close>

text \<open>
  Claim C2. Whenever \<open>build\<close> returns, the signing key is the base64 encoding of the
  HMAC-SHA256 computed with the client secret as key over the formatted timestamp as
  message, and the signature appended to the preamble is the base64 encoding of the
  HMAC-SHA256 computed with that signing key as key over the string-to-sign as message;
  the result is the one value of the request's \<open>Authorization\<close> header.
\<close>

theorem build_signingKey_signature:
  assumes "build L w ctx = Inr (err, ctx', out)"
  shows "signingKey ctx' =
           base64_EncodeToString L
             (hmac_sha256 L (ClientSecret (credValues ctx)) (formattedTime ctx')) \<and>
         signedAuthHeaders ctx' =
           authHeaders ctx' @ ''signature='' @
           base64_EncodeToString L (hmac_sha256 L (signingKey ctx') (signingData ctx')) \<and>
         map_of (Header (ctx_Request ctx')) ''Authorization'' = Some [signedAuthHeaders ctx']"
proof -
  from assms obtain h where
    c: "ctx' = build_finish L ((buildCanonicalHeaders L (buildPathQuery (build_start w ctx)))\<lparr>contentHash := h\<rparr>)"
    by (rule build_Inr)
  have k: "CanonicalMIMEHeaderKey ''Authorization'' = ''Authorization''"
    by code_simp
  have a: "map_of (Header_Set hs ''Authorization'' v) ''Authorization'' = Some [v]" for hs v
    by (simp add: Header_Set_def k update_conv')
  show ?thesis
    unfolding c
    by (simp add: build_finish_sel a)
qed

text \<open>With the stand-in MAC the roles of the two arguments can be read off the key.\<close>

theorem build_signingKey_signature_witness:
  "build example_stdlib example_world (example_ctx (example_request ''GET'' [] [] None) [] 0) =
     Inr (None,
          fst (snd (projr (build example_stdlib example_world (example_ctx (example_request ''GET'' [] [] None) [] 0)))),
          snd (snd (projr (build example_stdlib example_world (example_ctx (example_request ''GET'' [] [] None) [] 0))))) \<and>
   signingKey (fst (snd (projr (build example_stdlib example_world (example_ctx (example_request ''GET'' [] [] None) [] 0))))) =
     ''base64(hmac(secret,20140321T19:34:21+0000))''"
proof -
  let ?c = "example_ctx (example_request ''GET'' [] [] None) [] 0"
  let ?b = "build example_stdlib example_world ?c"
  let ?x = "fst (snd (projr ?b))"
  have n: "\<not> isl ?b" by code_simp
  have e: "fst (projr ?b) = None" by code_simp
  from n e have b: "?b = Inr (None, ?x, snd (snd (projr ?b)))"
    by (cases ?b) auto
  have t: "formattedTime ?x = ''20140321T19:34:21+0000''" by code_simp
  have s: "ClientSecret (credValues ?c) = ''secret''"
    by (simp add: example_ctx_def example_creds_def)
  have "signingKey ?x =
          base64_EncodeToString example_stdlib
            (hmac_sha256 example_stdlib (ClientSecret (credValues ?c)) (formattedTime ?x))"
    using build_signingKey_signature [OF b] by (rule conjunct1)
  then have "signingKey ?x =
          base64_EncodeToString example_stdlib
            (hmac_sha256 example_stdlib ''secret'' ''20140321T19:34:21+0000'')"
    by (simp only: t s)
  also have "\<dots> = ''base64(hmac(secret,20140321T19:34:21+0000))''"
    by (simp add: example_stdlib_def)
  finally have "signingKey ?x = ''base64(hmac(secret,20140321T19:34:21+0000))''" .
  with b show ?thesis by (rule conjI)
qed

subsection \<open>The canonical path and query\<close>

text \<open>
  The later revision of \<open>buildPathQuery\<close> gives the path alone for an empty raw query and
  \<open>path?rawquery\<close> otherwise; the one in \<^verbatim>\<open>akamai/authentication.go\<close> appends the question
  mark and the raw query in every case.
\<close>

lemma buildPathQuery_pathQuery:
  "pathQuery (buildPathQuery ctx) =
     (if RawQuery (URL (ctx_Request ctx)) = [] then Path (URL (ctx_Request ctx))
      else Path (URL (ctx_Request ctx)) @ ''?'' @ RawQuery (URL (ctx_Request ctx)))"
  by (simp add: buildPathQuery_def)

lemma buildPathQuery_authentication_go_pathQuery:
  "pathQuery (buildPathQuery_authentication_go ctx) =
     Path (URL (ctx_Request ctx)) @ ''?'' @ RawQuery (URL (ctx_Request ctx))"
  by (simp add: buildPathQuery_authentication_go_def Let_def)

text \<open>
  Claim C3, at a request without a query string: \<open>buildPathQuery\<close> of
  \<^verbatim>\<open>akamai/authentication.go\<close> leaves a trailing question mark after the path, where the
  claim (and the later revision of the function) has the path alone.
\<close>

theorem buildPathQuery_authentication_go_empty_query:
  "RawQuery (URL (ctx_Request (example_ctx (example_request ''GET'' [] [] None) [] 0))) = [] \<and>
   pathQuery (buildPathQuery_authentication_go (example_ctx (example_request ''GET'' [] [] None) [] 0)) =
     ''/testapi/v1/t1?'' \<and>
   pathQuery (buildPathQuery (example_ctx (example_request ''GET'' [] [] None) [] 0)) =
     ''/testapi/v1/t1''"
  by (simp add: buildPathQuery_authentication_go_def buildPathQuery_def example_ctx_def example_request_def)

subsection \<open>The canonical headers\<close>

text \<open>
  \<open>stringMinifier\<close> collapses every run of white-space runes to one space: its loop with
  the flag computes what \<open>collapse_spaces\<close> does on the runes of the input. The collapsed
  runes are the runes of the input that are no white space, in their order, with single
  spaces \<open>U+0020\<close> between them, never two in a row.
\<close>

lemma string_rune_space: "string_rune 32 = '' ''"
  by code_simp

lemma stringMinifier_loop_collapse:
  "stringMinifier_loop white out rs =
     out @ string_runes (if white then collapse_spaces (dropWhile unicode_IsSpace rs)
                         else collapse_spaces rs)"
  by (induction rs arbitrary: white out) (simp_all add: string_runes_def string_rune_space)

lemma stringMinifier_collapse: "stringMinifier s = string_runes (collapse_spaces (runes s))"
  by (simp add: stringMinifier_def stringMinifier_loop_collapse)

text \<open>
  On text that is not ASCII: no-break spaces are white space, to trim and to collapse,
  and a byte that is no UTF-8 comes out of \<open>stringMinifier\<close> as \<open>U+FFFD\<close>.
\<close>

lemma stringMinifier_no_break_space:
  "stringMinifier (''a'' @ [CHR 0xC2, CHR 0xA0] @ ''  b'') = ''a b''"
  by code_simp

lemma stringMinifier_invalid_byte:
  "stringMinifier [CHR ''a'', CHR 0xFF, CHR ''b''] = [CHR ''a'', CHR 0xEF, CHR 0xBF, CHR 0xBD, CHR ''b'']"
  by code_simp

lemma strings_TrimSpace_no_break_space:
  "strings_TrimSpace ([CHR 0xC2, CHR 0xA0] @ ''a b'' @ [CHR 0xE3, CHR 0x80, CHR 0x80]) = ''a b''"
  by code_simp

lemma strings_ToLower_example:
  "strings_ToLower example_stdlib ''X-Test1'' = ''x-test1''"
  "strings_ToLower example_stdlib [CHR 0xC3, CHR 0x89] = [CHR 0xC3, CHR 0xA9]"
  by code_simp+

lemma filter_dropWhile_not:
  "filter (\<lambda>r. \<not> Q r) (dropWhile Q rs) = filter (\<lambda>r. \<not> Q r) rs"
  by (induction rs) simp_all

lemma collapse_spaces_keeps:
  "filter (\<lambda>r. \<not> unicode_IsSpace r) (collapse_spaces rs) = filter (\<lambda>r. \<not> unicode_IsSpace r) rs"
proof (induction rs rule: collapse_spaces.induct)
  case 1
  show ?case by simp
next
  case (2 c cs)
  have s: "unicode_IsSpace 32" by (simp add: unicode_IsSpace_def)
  from 2 show ?case
    by (simp add: s filter_dropWhile_not)
qed

lemma collapse_spaces_one_kind:
  "r \<in> set (collapse_spaces rs) \<Longrightarrow> unicode_IsSpace r \<Longrightarrow> r = 32"
  by (induction rs rule: collapse_spaces.induct) (auto split: if_splits)

lemma collapse_spaces_head:
  assumes "collapse_spaces (dropWhile unicode_IsSpace rs) = r # rest"
  shows "\<not> unicode_IsSpace r"
proof (cases "dropWhile unicode_IsSpace rs")
  case Nil
  with assms show ?thesis by simp
next
  case (Cons a list)
  then have "\<not> unicode_IsSpace a"
    using hd_dropWhile [of unicode_IsSpace rs] by simp
  with Cons assms show ?thesis by simp
qed

lemma collapse_spaces_single:
  "successively (\<lambda>a b. \<not> (unicode_IsSpace a \<and> unicode_IsSpace b)) (collapse_spaces rs)"
proof (induction rs rule: collapse_spaces.induct)
  case 1
  show ?case by simp
next
  case (2 c cs)
  show ?case
  proof (cases "unicode_IsSpace c")
    case True
    with 2 show ?thesis
      by (cases "collapse_spaces (dropWhile unicode_IsSpace cs)")
         (auto simp add: successively_Cons dest: collapse_spaces_head)
  next
    case False
    with 2 show ?thesis
      by (cases "collapse_spaces cs") (auto simp add: successively_Cons)
  qed
qed

text \<open>The two nested loops in closed form.\<close>

lemma sign_loop_replicate:
  "sign_loop L h k acc signs = acc @ replicate (count_list signs k) (header_entry L h k)"
  unfolding sign_loop_def
  by (induction signs arbitrary: acc) (simp_all add: replicate_app_Cons_same)

lemma key_loop_concat:
  "key_loop L h signs acc ks =
     acc @ concat (map (\<lambda>k. replicate (count_list signs k) (header_entry L h k)) ks)"
  unfolding key_loop_def
  by (induction ks arbitrary: acc) (simp_all add: sign_loop_replicate)

lemma count_list_distinct:
  "distinct xs \<Longrightarrow> count_list xs k = (if k \<in> set xs then 1 else 0)"
  by (induction xs) auto

lemma concat_replicate_filter:
  assumes "distinct signs"
  shows "concat (map (\<lambda>k. replicate (count_list signs k) (e k)) ks) =
           map e (filter (\<lambda>k. k \<in> set signs) ks)"
  by (induction ks) (simp_all add: count_list_distinct [OF assms])

lemma concat_map_empty: "concat (map (\<lambda>k. []) ks) = []"
  by (induction ks) simp_all

lemma header_entry_collapse:
  "header_entry L h k =
     strings_ToLower L k @ '':'' @
     strings_ToLower L (string_runes (collapse_spaces (runes (strings_TrimSpace (Header_Get h k)))))"
  by (simp add: header_entry_def stringMinifier_collapse)

lemma buildCanonicalHeaders_concat:
  "canonicalHeaders (buildCanonicalHeaders L ctx) =
     strings_Join
       (concat (map (\<lambda>k. replicate (count_list (headersToSign ctx) k)
                  (strings_ToLower L k @ '':'' @
                   strings_ToLower L
                     (string_runes (collapse_spaces (runes (strings_TrimSpace
                        (Header_Get (Header (ctx_Request ctx)) k)))))))
               (sort (header_keys (Header (ctx_Request ctx))))))
       tab"
  by (simp add: buildCanonicalHeaders_def Let_def key_loop_concat header_entry_collapse)

text \<open>
  Claim C4, amended. The canonical headers string goes through the keys of the request's
  header map in ascending byte order and holds, for each key, one entry per occurrence
  of exactly that string in the headers-to-sign list: the comparison is between the list
  entry and the map key as they are, case included. With a duplicate-free list these are
  the keys that are members of the list, once each. An entry is the key in lower case, a
  colon, and the value \<open>Header.Get\<close> gives for the key, with the white space around it
  trimmed and every run of white space in it collapsed to one space, in lower case;
  entries are joined by tabs. A header whose key is not in the list has no entry, and an
  empty list gives the empty string.
\<close>

theorem buildCanonicalHeaders_exact_match:
  "canonicalHeaders (buildCanonicalHeaders L ctx) =
     strings_Join
       (concat (map (\<lambda>k. replicate (count_list (headersToSign ctx) k)
                  (strings_ToLower L k @ '':'' @
                   strings_ToLower L
                     (string_runes (collapse_spaces (runes (strings_TrimSpace
                        (Header_Get (Header (ctx_Request ctx)) k)))))))
               (sort (header_keys (Header (ctx_Request ctx))))))
       tab \<and>
   (distinct (headersToSign ctx) \<longrightarrow>
      canonicalHeaders (buildCanonicalHeaders L ctx) =
        strings_Join
          (map (\<lambda>k. strings_ToLower L k @ '':'' @
                   strings_ToLower L
                     (string_runes (collapse_spaces (runes (strings_TrimSpace
                        (Header_Get (Header (ctx_Request ctx)) k))))))
               (filter (\<lambda>k. k \<in> set (headersToSign ctx))
                  (sort (header_keys (Header (ctx_Request ctx))))))
          tab) \<and>
   (headersToSign ctx = [] \<longrightarrow> canonicalHeaders (buildCanonicalHeaders L ctx) = [])"
proof (intro conjI impI)
  show "canonicalHeaders (buildCanonicalHeaders L ctx) =
     strings_Join
       (concat (map (\<lambda>k. replicate (count_list (headersToSign ctx) k)
                  (strings_ToLower L k @ '':'' @
                   strings_ToLower L
                     (string_runes (collapse_spaces (runes (strings_TrimSpace
                        (Header_Get (Header (ctx_Request ctx)) k)))))))
               (sort (header_keys (Header (ctx_Request ctx))))))
       tab"
    by (rule buildCanonicalHeaders_concat)
next
  assume "distinct (headersToSign ctx)"
  then show "canonicalHeaders (buildCanonicalHeaders L ctx) =
        strings_Join
          (map (\<lambda>k. strings_ToLower L k @ '':'' @
                   strings_ToLower L
                     (string_runes (collapse_spaces (runes (strings_TrimSpace
                        (Header_Get (Header (ctx_Request ctx)) k))))))
               (filter (\<lambda>k. k \<in> set (headersToSign ctx))
                  (sort (header_keys (Header (ctx_Request ctx))))))
          tab"
    by (simp only: buildCanonicalHeaders_concat concat_replicate_filter)
next
  assume "headersToSign ctx = []"
  then show "canonicalHeaders (buildCanonicalHeaders L ctx) = []"
    by (simp add: buildCanonicalHeaders_concat concat_map_empty)
qed

text \<open>
  Three headers, two of them listed under their own key and one list entry without
  header; the runs of white space hold a tab, no-break and ideographic spaces.
\<close>

theorem buildCanonicalHeaders_exact_match_witness:
  "distinct [''X-Test2'', ''X-Test1'', ''x-test3''] \<and>
   canonicalHeaders (buildCanonicalHeaders example_stdlib
      (example_ctx (example_request ''GET'' [] example_headers None) [''X-Test2'', ''X-Test1'', ''x-test3''] 0)) =
     ''x-test1:a b'' @ tab @ ''x-test2:two spaces''"
proof -
  let ?c = "example_ctx (example_request ''GET'' [] example_headers None) [''X-Test2'', ''X-Test1'', ''x-test3''] 0"
  have d: "distinct (headersToSign ?c)" by (simp add: example_ctx_def)
  have "canonicalHeaders (buildCanonicalHeaders example_stdlib ?c) =
        strings_Join
          (map (\<lambda>k. strings_ToLower example_stdlib k @ '':'' @
                   strings_ToLower example_stdlib
                     (string_runes (collapse_spaces (runes (strings_TrimSpace
                        (Header_Get (Header (ctx_Request ?c)) k))))))
               (filter (\<lambda>k. k \<in> set (headersToSign ?c))
                  (sort (header_keys (Header (ctx_Request ?c))))))
          tab"
    using buildCanonicalHeaders_exact_match [of example_stdlib ?c] d by blast
  also have "\<dots> = ''x-test1:a b'' @ tab @ ''x-test2:two spaces''"
    by code_simp
  finally show ?thesis by simp
qed

text \<open>
  Claim C4 as stated fails: the header \<open>X-Test1\<close> is listed as \<open>x-test1\<close>. Matching without
  regard to case signs it; \<open>buildCanonicalHeaders\<close> compares with \<open>==\<close> and leaves it out.
\<close>

theorem buildCanonicalHeaders_case_counterexample:
  "canonicalHeaders (buildCanonicalHeaders example_stdlib
      (example_ctx (example_request ''GET'' [] [(''X-Test1'', [''a''])] None) [''x-test1''] 0)) = [] \<and>
   canonicalHeaders_spec example_stdlib [(''X-Test1'', [''a''])] [''x-test1''] = ''x-test1:a''"
  by code_simp

section \<open>Properties of \<open>Sign\<close>\<close>

lemma Sign_unfold:
  "Sign L w P s c req body =
     (case Get P c of
        ((cv, Some err), c') \<Rightarrow>
          Inr \<lparr>returned = (Some [], Some err), request = req, credentials = c', stdout = []\<rparr>
      | ((cv, None), c') \<Rightarrow>
          (case build L w (Sign_ctx L s cv req body) of
             Inl p \<Rightarrow> Inl p
           | Inr (Some err, ctx'', out) \<Rightarrow>
               Inr \<lparr>returned = (None, Some err), request = ctx_Request ctx'',
                    credentials = c', stdout = out\<rparr>
           | Inr (None, ctx'', out) \<Rightarrow>
               Inr \<lparr>returned = (SignedHeaderVals ctx'', None), request = ctx_Request ctx'',
                    credentials = c', stdout = out\<rparr>))"
  unfolding Sign_def Sign_ctx_def Let_def ..

lemma Sign_ctx_sel [simp]:
  "ctx_Request (Sign_ctx L s cv req body) = req"
  "credValues (Sign_ctx L s cv req body) = cv"
  "maxBody (Sign_ctx L s cv req body) = (if MaxBody s = 0 then 131072 else MaxBody s)"
  "headersToSign (Sign_ctx L s cv req body) = HeadersToSign s"
  "SignedHeaderVals (Sign_ctx L s cv req body) = None"
  "formattedTime (Sign_ctx L s cv req body) = Timestamp s"
  "nonce (Sign_ctx L s cv req body) = Nonce s"
  by (simp_all add: Sign_ctx_def Let_def)

lemma buildContentHash_nonneg:
  assumes "0 \<le> maxBody c"
  shows "buildContentHash L c =
     Inr (c\<lparr>contentHash :=
            (if Method (ctx_Request c) = ''POST'' \<and> request_bytes (ctx_Request c) \<noteq> []
             then base64_EncodeToString L
                    (sha256_Sum256 L (take (nat (maxBody c)) (request_bytes (ctx_Request c))))
             else [])\<rparr>)"
proof (cases "Body (ctx_Request c)")
  case None
  then show ?thesis
    by (simp add: buildContentHash_def request_bytes_def)
next
  case (Some a)
  with assms show ?thesis
    by (auto simp add: buildContentHash_def request_bytes_def ctx_Request_Body_restore)
qed

lemma build_nonneg:
  assumes "0 \<le> maxBody ctx"
  shows "build L w ctx =
     Inr (None,
          build_finish L ((buildCanonicalHeaders L (buildPathQuery (build_start w ctx)))
            \<lparr>contentHash :=
               (if Method (ctx_Request ctx) = ''POST'' \<and> request_bytes (ctx_Request ctx) \<noteq> []
                then base64_EncodeToString L
                       (sha256_Sum256 L (take (nat (maxBody ctx)) (request_bytes (ctx_Request ctx))))
                else [])\<rparr>),
          snd (buildSignedAuthHeaders L (buildSigningData (buildSigningKey L (buildAuthHeaders
            ((buildCanonicalHeaders L (buildPathQuery (build_start w ctx)))
            \<lparr>contentHash :=
               (if Method (ctx_Request ctx) = ''POST'' \<and> request_bytes (ctx_Request ctx) \<noteq> []
                then base64_EncodeToString L
                       (sha256_Sum256 L (take (nat (maxBody ctx)) (request_bytes (ctx_Request ctx))))
                else [])\<rparr>))))))"
proof -
  let ?c4 = "buildCanonicalHeaders L (buildPathQuery (build_start w ctx))"
  have m: "maxBody ?c4 = maxBody ctx" "ctx_Request ?c4 = ctx_Request ctx"
    by (simp_all add: buildCanonicalHeaders_def buildPathQuery_def Let_def)
  from assms have "0 \<le> maxBody ?c4" by (simp only: m)
  from buildContentHash_nonneg [OF this, of L] show ?thesis
    by (simp only: build_unfold m sum.case)
qed

subsection \<open>The content hash\<close>

text \<open>
  Claim C5. Let credential retrieval succeed and \<open>MaxBody\<close> be a byte count (not
  negative; zero stands for the default 131072). Then \<open>Sign\<close> returns, and the content
  hash of its signing context is the base64 encoding of the SHA-256 of the first
  \<open>maxBody\<close> bytes of the request's body exactly when the method is \<open>POST\<close> and the body is
  not empty, and the empty string for any other method or an empty body. Either way it
  stands between its two tabs in the string-to-sign, and the request carries the whole
  body after signing.
\<close>

theorem Sign_contentHash:
  assumes "Get P c = ((cv, None), c')" and "0 \<le> MaxBody s"
  shows "\<exists>ctx' out r.
     build L w (Sign_ctx L s cv req body) = Inr (None, ctx', out) \<and>
     Sign L w P s c req body = Inr r \<and> request r = ctx_Request ctx' \<and>
     contentHash ctx' =
       (if Method req = ''POST'' \<and> request_bytes req \<noteq> []
        then base64_EncodeToString L
               (sha256_Sum256 L
                  (take (nat (if MaxBody s = 0 then 131072 else MaxBody s)) (request_bytes req)))
        else []) \<and>
     signingData ctx' =
       Method req @ tab @ Scheme (URL req) @ tab @ url_Host (URL req) @ tab @
       pathQuery ctx' @ tab @ canonicalHeaders ctx' @ tab @ contentHash ctx' @ tab @
       authHeaders ctx' \<and>
     Body (request r) = Body req"
proof -
  let ?ctx = "Sign_ctx L s cv req body"
  define h where "h =
       (if Method req = ''POST'' \<and> request_bytes req \<noteq> []
        then base64_EncodeToString L
               (sha256_Sum256 L
                  (take (nat (if MaxBody s = 0 then 131072 else MaxBody s)) (request_bytes req)))
        else [])"
  define c5 where "c5 = (buildCanonicalHeaders L (buildPathQuery (build_start w ?ctx)))\<lparr>contentHash := h\<rparr>"
  define out where "out = snd (buildSignedAuthHeaders L (buildSigningData (buildSigningKey L (buildAuthHeaders c5))))"
  define r where "r = \<lparr>returned = (SignedHeaderVals (build_finish L c5), None),
      request = ctx_Request (build_finish L c5), credentials = c', stdout = out\<rparr>"
  from assms(2) have "0 \<le> maxBody ?ctx" by simp
  from build_nonneg [OF this, of L w]
  have b: "build L w ?ctx = Inr (None, build_finish L c5, out)"
    by (simp add: c5_def h_def out_def)
  have s: "Sign L w P s c req body = Inr r"
    by (simp add: Sign_unfold assms(1) b r_def)
  have q: "request r = ctx_Request (build_finish L c5)"
    by (simp add: r_def)
  have ch: "contentHash (build_finish L c5) = h"
    by (simp add: build_finish_sel c5_def)
  have sd: "signingData (build_finish L c5) =
       Method req @ tab @ Scheme (URL req) @ tab @ url_Host (URL req) @ tab @
       pathQuery (build_finish L c5) @ tab @ canonicalHeaders (build_finish L c5) @ tab @
       contentHash (build_finish L c5) @ tab @ authHeaders (build_finish L c5)"
    using build_Inr_signingData [OF b] by simp
  have bd: "Body (request r) = Body req"
    by (simp add: r_def build_finish_sel c5_def)
  from b s q ch sd bd show ?thesis
    unfolding h_def by blast
qed

text \<open>
  A negative \<open>maxBody\<close> is no byte count: on a POST request with a body the slice
  expression panics.
\<close>

lemma buildContentHash_negative_maxBody:
  assumes "Method (ctx_Request c) = ''POST''" and "Body (ctx_Request c) = Some (b # bs)"
    and "maxBody c < 0"
  shows "buildContentHash L c = Inl SliceBoundsOutOfRange"
  using assms by (simp add: buildContentHash_def)

subsection \<open>What \<open>Sign\<close> returns\<close>

lemma CanonicalMIMEHeaderKey_Authorization:
  "CanonicalMIMEHeaderKey ''Authorization'' = ''Authorization''"
  by code_simp

lemma map_of_Header_Set_Authorization:
  "map_of (Header_Set hs ''Authorization'' v) k =
     (if k = ''Authorization'' then Some [v] else map_of hs k)"
  by (simp add: Header_Set_def CanonicalMIMEHeaderKey_Authorization update_conv')

text \<open>
  On every call in which credential retrieval succeeds and \<open>build\<close> does not panic, \<open>Sign\<close>
  returns no error and leaves the signed value as the one value of the request's
  \<open>Authorization\<close> header, all other headers as they were. What it returns as header set
  is the field \<open>SignedHeaderVals\<close> of the signing context, and no stage of \<open>build\<close> has
  assigned that field.
\<close>

lemma Sign_signs_in_place:
  assumes "Get P c = ((cv, None), c')" and "0 \<le> MaxBody s"
  shows "\<exists>ctx' out r.
     build L w (Sign_ctx L s cv req body) = Inr (None, ctx', out) \<and>
     Sign L w P s c req body = Inr r \<and>
     returned r = (SignedHeaderVals ctx', None) \<and> SignedHeaderVals ctx' = None \<and>
     credentials r = c' \<and>
     (\<forall>k. map_of (Header (request r)) k =
            (if k = ''Authorization'' then Some [signedAuthHeaders ctx'] else map_of (Header req) k))"
proof -
  let ?ctx = "Sign_ctx L s cv req body"
  from assms(2) have "0 \<le> maxBody ?ctx" by simp
  from build_nonneg [OF this, of L w]
  obtain c5 out where b: "build L w ?ctx = Inr (None, build_finish L c5, out)"
    and c5: "c5 = (buildCanonicalHeaders L (buildPathQuery (build_start w ?ctx)))\<lparr>contentHash := contentHash c5\<rparr>"
    by simp
  define r where "r = \<lparr>returned = (SignedHeaderVals (build_finish L c5), None),
      request = ctx_Request (build_finish L c5), credentials = c', stdout = out\<rparr>"
  have s: "Sign L w P s c req body = Inr r"
    by (simp add: Sign_unfold assms(1) b r_def)
  have n: "SignedHeaderVals (build_finish L c5) = None"
    by (subst c5) (simp add: build_finish_sel)
  have rq: "ctx_Request c5 = req"
    by (subst c5) simp
  have hd: "map_of (Header (request r)) k =
            (if k = ''Authorization'' then Some [signedAuthHeaders (build_finish L c5)]
             else map_of (Header req) k)" for k
    by (simp add: r_def build_finish_sel(11) rq map_of_Header_Set_Authorization)
  from b s n hd show ?thesis
    by (intro exI [of _ "build_finish L c5"] exI [of _ out] exI [of _ r]) (simp add: r_def)
qed

text \<open>The static provider of the test suite hands out its credentials at the first \<open>Get\<close>.\<close>

lemma example_Get:
  "Get StaticProvider (NewStaticCredentialsFromCreds example_creds) = ((example_creds, None), example_cache)"
  by (simp add: Get_def isExpired_def NewStaticCredentialsFromCreds_def NewCredentials_def
        StaticProvider_def StaticProvider_Retrieve_def example_creds_def example_cache_def Let_def)

text \<open>A POST body of twelve bytes under a \<open>MaxBody\<close> of four: hashed are the first four.\<close>

theorem Sign_contentHash_witness:
  "Get StaticProvider (NewStaticCredentialsFromCreds example_creds) = ((example_creds, None), example_cache) \<and>
   0 \<le> MaxBody (example_signer [] 4) \<and>
   (\<exists>(ctx' :: signingCtx) r.
      Sign example_stdlib example_world StaticProvider (example_signer [] 4)
        (NewStaticCredentialsFromCreds example_creds)
        (example_request ''POST'' [] [] (Some ''datadatadata'')) None = Inr r \<and>
      contentHash ctx' = ''base64(sha256(data))'' \<and>
      Body (request r) = Some ''datadatadata'')"
proof -
  let ?req = "example_request ''POST'' [] [] (Some ''datadatadata'')"
  have m: "0 \<le> MaxBody (example_signer [] 4)"
    by (simp add: example_signer_def)
  from Sign_contentHash [OF example_Get m, of example_stdlib example_world ?req None]
  obtain ctx' :: signingCtx and r where
    s: "Sign example_stdlib example_world StaticProvider (example_signer [] 4)
          (NewStaticCredentialsFromCreds example_creds) ?req None = Inr r"
    and h: "contentHash ctx' =
       (if Method ?req = ''POST'' \<and> request_bytes ?req \<noteq> []
        then base64_EncodeToString example_stdlib
               (sha256_Sum256 example_stdlib
                  (take (nat (if MaxBody (example_signer [] 4) = 0 then 131072 else MaxBody (example_signer [] 4)))
                     (request_bytes ?req)))
        else [])"
    and b: "Body (request r) = Body ?req"
    by blast
  have h': "contentHash ctx' = ''base64(sha256(data))''"
    unfolding h by (simp add: example_request_def example_signer_def example_stdlib_def request_bytes_def)
  have b': "Body (request r) = Some ''datadatadata''"
    unfolding b by (simp add: example_request_def)
  from s h' b' have "\<exists>(ctx' :: signingCtx) r.
      Sign example_stdlib example_world StaticProvider (example_signer [] 4)
        (NewStaticCredentialsFromCreds example_creds) ?req None = Inr r \<and>
      contentHash ctx' = ''base64(sha256(data))'' \<and>
      Body (request r) = Some ''datadatadata''"
    by blast
  with example_Get m show ?thesis by blast
qed

text \<open>
  Claim C6, at a GET request signed with valid static credentials: credential retrieval
  succeeds, \<open>Sign\<close> returns without error and the request carries its \<open>Authorization\<close>
  header, but the header set \<open>Sign\<close> returns is nil, where the claim has the full header
  set with \<open>Authorization\<close> set.
\<close>

theorem Sign_returns_nil_header_set:
  "snd (fst (Get StaticProvider (NewStaticCredentialsFromCreds example_creds))) = None \<and>
   \<not> isl (Sign example_stdlib example_world StaticProvider (example_signer [] 0)
            (NewStaticCredentialsFromCreds example_creds)
            (example_request ''GET'' [] [(''Accept'', [''*/*''])] None) None) \<and>
   returned (projr (Sign example_stdlib example_world StaticProvider (example_signer [] 0)
            (NewStaticCredentialsFromCreds example_creds)
            (example_request ''GET'' [] [(''Accept'', [''*/*''])] None) None)) = (None, None) \<and>
   map fst (Header (request (projr (Sign example_stdlib example_world StaticProvider (example_signer [] 0)
            (NewStaticCredentialsFromCreds example_creds)
            (example_request ''GET'' [] [(''Accept'', [''*/*''])] None) None)))) =
     [''Accept'', ''Authorization''] \<and>
   \<not> returns_signed_headers (projr (Sign example_stdlib example_world StaticProvider (example_signer [] 0)
            (NewStaticCredentialsFromCreds example_creds)
            (example_request ''GET'' [] [(''Accept'', [''*/*''])] None) None))"
proof -
  let ?S = "Sign example_stdlib example_world StaticProvider (example_signer [] 0)
            (NewStaticCredentialsFromCreds example_creds)
            (example_request ''GET'' [] [(''Accept'', [''*/*''])] None) None"
  have g: "snd (fst (Get StaticProvider (NewStaticCredentialsFromCreds example_creds))) = None"
    by (simp add: example_Get)
  have i: "\<not> isl ?S" by code_simp
  have r: "returned (projr ?S) = (None, None)" by code_simp
  have h: "map fst (Header (request (projr ?S))) = [''Accept'', ''Authorization'']" by code_simp
  from r have "\<not> returns_signed_headers (projr ?S)"
    by (simp add: returns_signed_headers_def)
  with g i r h show ?thesis by blast
qed

subsection \<open>The \<open>body\<close> argument of \<open>Sign\<close>\<close>

text \<open>Every stage of \<open>build\<close> carries the field \<open>Body\<close> of the context along unread.\<close>

lemma build_start_ctx_Body:
  "build_start w (ctx\<lparr>ctx_Body := b\<rparr>) = (build_start w ctx)\<lparr>ctx_Body := b\<rparr>"
  by (simp add: build_start_def buildTime_def buildNonce_def Let_def)

lemma buildPathQuery_ctx_Body:
  "buildPathQuery (ctx\<lparr>ctx_Body := b\<rparr>) = (buildPathQuery ctx)\<lparr>ctx_Body := b\<rparr>"
  by (simp add: buildPathQuery_def)

lemma buildCanonicalHeaders_ctx_Body:
  "buildCanonicalHeaders L (ctx\<lparr>ctx_Body := b\<rparr>) = (buildCanonicalHeaders L ctx)\<lparr>ctx_Body := b\<rparr>"
  by (simp add: buildCanonicalHeaders_def Let_def)

lemma buildContentHash_ctx_Body:
  "buildContentHash L (ctx\<lparr>ctx_Body := b\<rparr>) =
     (case buildContentHash L ctx of Inl p \<Rightarrow> Inl p | Inr c \<Rightarrow> Inr (c\<lparr>ctx_Body := b\<rparr>))"
  by (cases "Body (ctx_Request ctx)") (simp_all add: buildContentHash_def)

lemma build_finish_ctx_Body:
  "build_finish L (ctx\<lparr>ctx_Body := b\<rparr>) = (build_finish L ctx)\<lparr>ctx_Body := b\<rparr>"
  by (simp add: build_finish_def Let_def buildSignedAuthHeaders_def buildSigningData_def
        buildSigningKey_def buildAuthHeaders_def)

lemma build_out_ctx_Body:
  "snd (buildSignedAuthHeaders L (buildSigningData (buildSigningKey L (buildAuthHeaders (ctx\<lparr>ctx_Body := b\<rparr>))))) =
   snd (buildSignedAuthHeaders L (buildSigningData (buildSigningKey L (buildAuthHeaders ctx))))"
  by (simp add: Let_def buildSignedAuthHeaders_def buildSigningData_def
        buildSigningKey_def buildAuthHeaders_def)

lemma build_ctx_Body:
  "build L w (ctx\<lparr>ctx_Body := b\<rparr>) =
     (case build L w ctx of
        Inl p \<Rightarrow> Inl p
      | Inr (e, c, out) \<Rightarrow> Inr (e, c\<lparr>ctx_Body := b\<rparr>, out))"
  by (simp add: build_unfold build_start_ctx_Body buildPathQuery_ctx_Body
        buildCanonicalHeaders_ctx_Body buildContentHash_ctx_Body build_finish_ctx_Body
        build_out_ctx_Body split: sum.split)

lemma Sign_ctx_body:
  "Sign_ctx L s cv req body = (Sign_ctx L s cv req None)\<lparr>ctx_Body := body\<rparr>"
  by (simp add: Sign_ctx_def Let_def)

lemma Sign_body_None:
  "Sign L w P s c req body = Sign L w P s c req None"
proof -
  have "build L w (Sign_ctx L s cv req body) =
     (case build L w (Sign_ctx L s cv req None) of
        Inl p \<Rightarrow> Inl p
      | Inr (e, c, out) \<Rightarrow> Inr (e, c\<lparr>ctx_Body := body\<rparr>, out))" for cv
    by (subst Sign_ctx_body) (rule build_ctx_Body)
  then show ?thesis
    by (simp add: Sign_unfold split: prod.split option.split sum.split)
qed

text \<open>With timestamp and nonce given, neither the clock nor the UUID source is consulted.\<close>

lemma build_world:
  assumes "formattedTime ctx \<noteq> []" and "nonce ctx \<noteq> []"
  shows "build L w ctx = build L w' ctx"
proof -
  from assms have "build_start w ctx = build_start w' ctx"
    by (simp add: build_start_def)
  then show ?thesis
    by (simp only: build_unfold)
qed

lemma Sign_world:
  assumes "Timestamp s \<noteq> []" and "Nonce s \<noteq> []"
  shows "Sign L w P s c req body = Sign L w' P s c req body"
proof -
  have "build L w (Sign_ctx L s cv req body) = build L w' (Sign_ctx L s cv req body)" for cv
    using assms by (intro build_world) simp_all
  then show ?thesis
    by (simp only: Sign_unfold)
qed

text \<open>
  Claim C10. Two calls of \<open>Sign\<close> that differ only in the \<open>body\<close> argument have the same
  outcome: the same returned pair, the same signed request (so the same \<open>Authorization\<close>
  value), the same cache and output. With the signer's timestamp and nonce set this
  holds whatever the clock and the UUID source give at the two calls. The content hash
  is computed from the request's own body; the stored argument passes through untouched.
\<close>

theorem Sign_body_unread:
  "Sign L w P s c req body1 = Sign L w P s c req body2 \<and>
   (Timestamp s \<noteq> [] \<and> Nonce s \<noteq> [] \<longrightarrow>
      Sign L w1 P s c req body1 = Sign L w2 P s c req body2) \<and>
   buildContentHash L (ctx\<lparr>ctx_Body := body1\<rparr>) =
     (case buildContentHash L ctx of Inl p \<Rightarrow> Inl p | Inr c \<Rightarrow> Inr (c\<lparr>ctx_Body := body1\<rparr>))"
proof (intro conjI impI)
  show "Sign L w P s c req body1 = Sign L w P s c req body2"
    by (simp only: Sign_body_None [of L w P s c req body1] Sign_body_None [of L w P s c req body2])
next
  assume a: "Timestamp s \<noteq> [] \<and> Nonce s \<noteq> []"
  have "Sign L w1 P s c req body1 = Sign L w1 P s c req None"
    by (rule Sign_body_None)
  also from a have "\<dots> = Sign L w2 P s c req None"
    by (intro Sign_world) simp_all
  also have "\<dots> = Sign L w2 P s c req body2"
    by (rule Sign_body_None [symmetric])
  finally show "Sign L w1 P s c req body1 = Sign L w2 P s c req body2" .
next
  show "buildContentHash L (ctx\<lparr>ctx_Body := body1\<rparr>) =
     (case buildContentHash L ctx of Inl p \<Rightarrow> Inl p | Inr c \<Rightarrow> Inr (c\<lparr>ctx_Body := body1\<rparr>))"
    by (rule buildContentHash_ctx_Body)
qed

text \<open>Two calls at different times, one with a body argument and one with nil.\<close>

theorem Sign_body_unread_witness:
  "Timestamp (example_signer [] 0) \<noteq> [] \<and> Nonce (example_signer [] 0) \<noteq> [] \<and>
   Sign example_stdlib example_world StaticProvider (example_signer [] 0)
     (NewStaticCredentialsFromCreds example_creds)
     (example_request ''POST'' [] [] (Some ''in the request'')) (Some ''passed to Sign'') =
   Sign example_stdlib example_world2 StaticProvider (example_signer [] 0)
     (NewStaticCredentialsFromCreds example_creds)
     (example_request ''POST'' [] [] (Some ''in the request'')) None"
proof -
  have t: "Timestamp (example_signer [] 0) \<noteq> [] \<and> Nonce (example_signer [] 0) \<noteq> []"
    by (simp add: example_signer_def)
  with Sign_body_unread [of example_stdlib example_world StaticProvider "example_signer [] 0"
      "NewStaticCredentialsFromCreds example_creds"
      "example_request ''POST'' [] [] (Some ''in the request'')" "Some ''passed to Sign''" None
      example_world example_world2]
  show ?thesis by blast
qed

subsection \<open>The earlier revision\<close>

text \<open>
  In \<^verbatim>\<open>akamai/authentication.go\<close> the string-to-sign has the same seven fields, with the
  canonical headers left as they were and the question mark always after the path, and
  \<open>Sign\<close> returns the same nil header set.
\<close>

lemma buildContentHash_authentication_go_eq:
  "buildContentHash_authentication_go L c =
     c\<lparr>contentHash := contentHash (buildContentHash_authentication_go L c)\<rparr>"
proof (cases "Body (ctx_Request c)")
  case None
  then show ?thesis
    by (simp add: buildContentHash_authentication_go_def Let_def)
next
  case (Some a)
  then show ?thesis
    by (simp add: buildContentHash_authentication_go_def Let_def ctx_Request_Body_restore)
qed

lemma buildContentHash_authentication_go_sel [simp]:
  "ctx_Request (buildContentHash_authentication_go L c) = ctx_Request c"
  "SignedHeaderVals (buildContentHash_authentication_go L c) = SignedHeaderVals c"
  "pathQuery (buildContentHash_authentication_go L c) = pathQuery c"
  "canonicalHeaders (buildContentHash_authentication_go L c) = canonicalHeaders c"
  "credValues (buildContentHash_authentication_go L c) = credValues c"
  "formattedTime (buildContentHash_authentication_go L c) = formattedTime c"
  "nonce (buildContentHash_authentication_go L c) = nonce c"
  "signingKey (buildContentHash_authentication_go L c) = signingKey c"
  by (subst buildContentHash_authentication_go_eq, simp)+

lemma build_authentication_go_signingData:
  assumes "build_authentication_go L w ctx = (err, ctx')"
  shows "signingData ctx' =
     Method (ctx_Request ctx) @ tab @ Scheme (URL (ctx_Request ctx)) @ tab @
     url_Host (URL (ctx_Request ctx)) @ tab @ pathQuery ctx' @ tab @
     canonicalHeaders ctx' @ tab @ contentHash ctx' @ tab @ authHeaders ctx' \<and>
   canonicalHeaders ctx' = canonicalHeaders ctx \<and>
   pathQuery ctx' = Path (URL (ctx_Request ctx)) @ ''?'' @ RawQuery (URL (ctx_Request ctx))"
proof -
  from assms have "ctx' = snd (build_authentication_go L w ctx)" by simp
  then show ?thesis
    by (simp add: build_authentication_go_def Let_def buildSignedAuthHeaders_authentication_go_def
          buildSigningData_def buildAuthHeaders_def buildSigningKey_def
          buildPathQuery_authentication_go_def buildNonce_def buildTime_def)
qed

lemma Sign_authentication_go_returned:
  assumes "Get P c = ((cv, None), c')"
  shows "fst (Sign_authentication_go L w P c req body) = (None, None)"
proof -
  have "fst (build_authentication_go L w x) = None" for x
    by (simp add: build_authentication_go_def Let_def)
  moreover have "SignedHeaderVals (snd (build_authentication_go L w x)) = SignedHeaderVals x" for x
    by (simp add: build_authentication_go_def Let_def buildSignedAuthHeaders_authentication_go_def
          buildSigningData_def buildAuthHeaders_def buildSigningKey_def
          buildPathQuery_authentication_go_def buildNonce_def buildTime_def)
  ultimately show ?thesis
    by (simp add: Sign_authentication_go_def assms Let_def split_beta split: option.split)
qed

section \<open>Properties of the credential cache and the providers\<close>

subsection \<open>\<open>Get\<close> and a failing or succeeding \<open>Retrieve\<close>\<close>

lemma Get_expired:
  assumes "isExpired P c"
  shows "Get P c =
     (case Retrieve P (provider c) of
        ((v, Some err), p') \<Rightarrow> ((AuthValue_zero, Some err), c\<lparr>provider := p'\<rparr>)
      | ((v, None), p') \<Rightarrow>
          ((v, None), c\<lparr>creds := v, forceRefresh := False, provider := p'\<rparr>))"
  using assms by (simp add: Get_def)

text \<open>
  Claim C7, amended. In an expired cache whose provider's \<open>Retrieve\<close> fails, \<open>Get\<close> returns
  the zero credential value with the provider's error, not the cached value, and leaves
  the cached value and the flag \<open>forceRefresh\<close> as they were. A flag that was set is
  therefore still set, the cache is still expired, and the next \<open>Get\<close> goes to \<open>Retrieve\<close>
  again. A successful \<open>Retrieve\<close> replaces the cached value by the retrieved one and
  clears the flag. A cache that is not expired hands out the cached value.
\<close>

theorem Get_refresh:
  "(isExpired P c \<and> Retrieve P (provider c) = ((v, Some e), p') \<longrightarrow>
      Get P c = ((AuthValue_zero, Some e), c\<lparr>provider := p'\<rparr>)) \<and>
   (forceRefresh c \<and> Retrieve P (provider c) = ((v, Some e), p') \<longrightarrow>
      forceRefresh (snd (Get P c)) \<and> isExpired P (snd (Get P c)) \<and>
      Get P (snd (Get P c)) =
        (case Retrieve P p' of
           ((v', Some e'), p'') \<Rightarrow> ((AuthValue_zero, Some e'), c\<lparr>provider := p''\<rparr>)
         | ((v', None), p'') \<Rightarrow>
             ((v', None), c\<lparr>creds := v', forceRefresh := False, provider := p''\<rparr>))) \<and>
   (isExpired P c \<and> Retrieve P (provider c) = ((v, None), p') \<longrightarrow>
      Get P c = ((v, None), c\<lparr>creds := v, forceRefresh := False, provider := p'\<rparr>)) \<and>
   (\<not> isExpired P c \<longrightarrow> Get P c = ((creds c, None), c))"
proof (intro conjI impI)
  assume "isExpired P c \<and> Retrieve P (provider c) = ((v, Some e), p')"
  then show "Get P c = ((AuthValue_zero, Some e), c\<lparr>provider := p'\<rparr>)"
    by (simp add: Get_expired)
next
  assume a: "forceRefresh c \<and> Retrieve P (provider c) = ((v, Some e), p')"
  then have x: "isExpired P c" by (simp add: isExpired_def)
  with a have g: "Get P c = ((AuthValue_zero, Some e), c\<lparr>provider := p'\<rparr>)"
    by (simp add: Get_expired)
  from a show "forceRefresh (snd (Get P c))" by (simp add: g)
  from a show y: "isExpired P (snd (Get P c))" by (simp add: g isExpired_def)
  show "Get P (snd (Get P c)) =
        (case Retrieve P p' of
           ((v', Some e'), p'') \<Rightarrow> ((AuthValue_zero, Some e'), c\<lparr>provider := p''\<rparr>)
         | ((v', None), p'') \<Rightarrow>
             ((v', None), c\<lparr>creds := v', forceRefresh := False, provider := p''\<rparr>))"
  proof -
    from y have y': "isExpired P (c\<lparr>provider := p'\<rparr>)" by (simp add: g)
    show ?thesis
      by (simp add: g Get_expired [OF y'] split: prod.split option.split)
  qed
next
  assume "isExpired P c \<and> Retrieve P (provider c) = ((v, None), p')"
  then show "Get P c = ((v, None), c\<lparr>creds := v, forceRefresh := False, provider := p'\<rparr>)"
    by (simp add: Get_expired)
next
  assume "\<not> isExpired P c"
  then show "Get P c = ((creds c, None), c)"
    by (simp add: Get_def)
qed

text \<open>A new cache over static credentials that are empty: the error, and the flag still set.\<close>

theorem Get_refresh_witness:
  "forceRefresh (NewStaticCredentialsFromCreds AuthValue_zero) \<and>
   Retrieve StaticProvider (provider (NewStaticCredentialsFromCreds AuthValue_zero)) =
     ((AuthValue_zero\<lparr>ProviderName := StaticProviderName\<rparr>, Some ErrStaticCredentialsEmpty), AuthValue_zero) \<and>
   Get StaticProvider (NewStaticCredentialsFromCreds AuthValue_zero) =
     ((AuthValue_zero, Some ErrStaticCredentialsEmpty), NewStaticCredentialsFromCreds AuthValue_zero) \<and>
   forceRefresh (snd (Get StaticProvider (NewStaticCredentialsFromCreds AuthValue_zero)))"
proof -
  let ?c = "NewStaticCredentialsFromCreds AuthValue_zero"
  have f: "forceRefresh ?c"
    by (simp add: NewStaticCredentialsFromCreds_def NewCredentials_def)
  have x: "isExpired StaticProvider ?c"
    using f by (simp add: isExpired_def)
  have r: "Retrieve StaticProvider (provider ?c) =
     ((AuthValue_zero\<lparr>ProviderName := StaticProviderName\<rparr>, Some ErrStaticCredentialsEmpty), AuthValue_zero)"
    by (simp add: NewStaticCredentialsFromCreds_def NewCredentials_def StaticProvider_def
          StaticProvider_Retrieve_def AuthValue_zero_def)
  have p: "?c\<lparr>provider := AuthValue_zero\<rparr> = ?c"
    by (simp add: NewStaticCredentialsFromCreds_def NewCredentials_def)
  note t = Get_refresh [of StaticProvider ?c "AuthValue_zero\<lparr>ProviderName := StaticProviderName\<rparr>"
      ErrStaticCredentialsEmpty AuthValue_zero]
  from t x r have "Get StaticProvider ?c = ((AuthValue_zero, Some ErrStaticCredentialsEmpty), ?c\<lparr>provider := AuthValue_zero\<rparr>)"
    by blast
  then have g: "Get StaticProvider ?c = ((AuthValue_zero, Some ErrStaticCredentialsEmpty), ?c)"
    by (simp only: p)
  from t f r have "forceRefresh (snd (Get StaticProvider ?c))"
    by blast
  with f r g show ?thesis by blast
qed

text \<open>
  Claim C7 as stated fails where the refresh came from the provider's expiry and the flag
  was clear: the failed \<open>Get\<close> leaves the flag clear, and with the provider of the test
  suite, which stops reporting expiry once asked, the next \<open>Get\<close> does not call \<open>Retrieve\<close>
  and returns the old cached value without error.
\<close>

theorem Get_stale_counterexample:
  "isExpired stubProvider example_stale_cache \<and>
   snd (fst (Retrieve stubProvider (provider example_stale_cache))) =
     Some (errors_New ''token service unavailable'') \<and>
   fst (Get stubProvider example_stale_cache) =
     (AuthValue_zero, Some (errors_New ''token service unavailable'')) \<and>
   \<not> forceRefresh (snd (Get stubProvider example_stale_cache)) \<and>
   Get stubProvider (snd (Get stubProvider example_stale_cache)) =
     ((creds example_stale_cache, None), snd (Get stubProvider example_stale_cache))"
  by (simp add: Get_def isExpired_def stubProvider_def stubProvider_Retrieve_def
        example_stale_cache_def Let_def)

subsection \<open>Errors of the shared-credentials provider\<close>

text \<open>
  No path through \<open>loadProfile\<close> returns \<open>ErrAccessTokenNotFoundFile\<close>; and whatever error
  \<open>Retrieve\<close> returns, the provider stays unretrieved.
\<close>

lemma loadProfile_never_ErrAccessTokenNotFoundFile:
  "snd (loadProfile sys fname prof) \<noteq> Some ErrAccessTokenNotFoundFile"
  by (simp add: loadProfile_def Let_def split: option.split)

lemma SharedCredentialsProvider_Retrieve_error:
  assumes "snd (fst (SharedCredentialsProvider_Retrieve sys p)) = Some e"
  shows "\<not> retrieved (snd (SharedCredentialsProvider_Retrieve sys p)) \<and>
         SharedCredentialsProvider_IsExpired (snd (SharedCredentialsProvider_Retrieve sys p)) \<and>
         fst (fst (SharedCredentialsProvider_Retrieve sys p)) =
           AuthValue_zero\<lparr>ProviderName := SharedCredsProviderName\<rparr>"
proof -
  obtain fname ferr p1 where f: "filename sys (p\<lparr>retrieved := False\<rparr>) = ((fname, ferr), p1)"
    by (metis prod.exhaust)
  have r1: "\<not> retrieved p1"
    using f by (auto simp add: filename_def Let_def split: if_splits option.splits)
  obtain prof p2 where q: "profile sys p1 = (prof, p2)"
    by (metis prod.exhaust)
  have r2: "\<not> retrieved p2"
    using q r1 by (auto simp add: profile_def Let_def split: if_splits)
  obtain v lerr where l: "loadProfile sys fname prof = (v, lerr)"
    by (metis prod.exhaust)
  show ?thesis
  proof (cases ferr)
    case (Some a)
    with f r1 show ?thesis
      by (simp add: SharedCredentialsProvider_Retrieve_def SharedCredentialsProvider_IsExpired_def Let_def)
  next
    case None
    note n = this
    show ?thesis
    proof (cases lerr)
      case (Some b)
      with f n q l r2 show ?thesis
        by (simp add: SharedCredentialsProvider_Retrieve_def SharedCredentialsProvider_IsExpired_def Let_def)
    next
      case None
      with f n q l assms show ?thesis
        by (simp add: SharedCredentialsProvider_Retrieve_def Let_def)
    qed
  qed
qed

text \<open>
  Claim C8, at a profile that lacks only \<open>access_token\<close>: \<open>Retrieve\<close> returns
  \<open>ErrClientTokenNotFoundFile\<close>, the error it also returns for a profile that lacks only
  \<open>client_token\<close>.
\<close>

theorem loadProfile_access_token_error:
  "snd (fst (SharedCredentialsProvider_Retrieve
        (example_os [''client_secret'' \<mapsto> ''s'', ''client_token'' \<mapsto> ''t'', ''host'' \<mapsto> ''h''])
        example_provider)) = Some ErrClientTokenNotFoundFile \<and>
   snd (fst (SharedCredentialsProvider_Retrieve
        (example_os [''client_secret'' \<mapsto> ''s'', ''access_token'' \<mapsto> ''a'', ''host'' \<mapsto> ''h''])
        example_provider)) = Some ErrClientTokenNotFoundFile"
  by (simp add: SharedCredentialsProvider_Retrieve_def filename_def profile_def loadProfile_def
        example_os_def example_provider_def Let_def)

subsection \<open>Concurrent callers\<close>

text \<open>One caller running its two sections is \<open>Get\<close>.\<close>

lemma Get_sections:
  "run P [0, 0] (concurrent_Get c 1) =
     \<lparr>cache = snd (Get P c), callers = [Returned (fst (Get P c))],
      retrieve_calls = (if isExpired P c then 1 else 0)\<rparr>"
  by (simp add: concurrent_Get_def step_def Get_read_section_def Get_write_section_def Get_def
        split: prod.split option.split)

lemma length_callers_step [simp]: "length (callers (step P i st)) = length (callers st)"
  by (simp add: step_def split: caller.split prod.split)

lemma length_callers_run [simp]: "length (callers (run P sched st)) = length (callers st)"
  by (induction sched arbitrary: st) simp_all

lemma list_all_update:
  "list_all Q xs \<Longrightarrow> Q y \<Longrightarrow> list_all Q (xs[i := y])"
  by (induction xs arbitrary: i) (auto split: nat.split)

lemma list_all_weaken:
  "list_all Q xs \<Longrightarrow> (\<And>x. Q x \<Longrightarrow> R x) \<Longrightarrow> list_all R xs"
  by (induction xs) auto

lemma filter_update_count:
  "i < length xs \<Longrightarrow> \<not> Q (xs ! i) \<Longrightarrow> Q y \<Longrightarrow>
     length (filter Q (xs[i := y])) = Suc (length (filter Q xs))"
  by (induction xs arbitrary: i) (auto split: nat.split)

lemma filter_update_same:
  "i < length xs \<Longrightarrow> \<not> Q (xs ! i) \<Longrightarrow> \<not> Q y \<Longrightarrow>
     length (filter Q (xs[i := y])) = length (filter Q xs)"
  by (induction xs arbitrary: i) (auto split: nat.split)

lemma refreshed_once_step:
  assumes x: "isExpired P c"
    and r: "Retrieve P (provider c) = ((v, None), p')"
    and f: "\<not> IsExpired P p'"
    and inv: "refreshed_once c v p' st"
  shows "refreshed_once c v p' (step P i st)"
proof (cases "i < length (callers st)")
  case False
  with inv show ?thesis by (simp add: step_def)
next
  case True
  note i = this
  let ?c' = "c\<lparr>creds := v, forceRefresh := False, provider := p'\<rparr>"
  from f have nx: "\<not> isExpired P ?c'" by (simp add: isExpired_def)
  show ?thesis
  proof (cases "callers st ! i")
    case (Returned res)
    with i inv show ?thesis by (simp add: step_def)
  next
    case AtReadLock
    then have s: "step P i st = st\<lparr>callers := (callers st)[i := Get_read_section P (cache st)]\<rparr>"
      using i by (simp add: step_def)
    from inv show ?thesis
      unfolding refreshed_once_def
    proof (elim disjE conjE)
      assume "retrieve_calls st = 0" "cache st = c"
        and l: "list_all (\<lambda>k. k = AtReadLock \<or> k = AtWriteLock) (callers st)"
      with x show "(retrieve_calls (step P i st) = 0 \<and> cache (step P i st) = c \<and>
          list_all (\<lambda>k. k = AtReadLock \<or> k = AtWriteLock) (callers (step P i st))) \<or>
         (retrieve_calls (step P i st) = 1 \<and> cache (step P i st) = ?c' \<and>
          list_all (\<lambda>k. k = AtReadLock \<or> k = AtWriteLock \<or> k = Returned (v, None))
            (callers (step P i st)))"
        by (simp add: s Get_read_section_def list_all_update)
    next
      assume "retrieve_calls st = 1" "cache st = ?c'"
        and l: "list_all (\<lambda>k. k = AtReadLock \<or> k = AtWriteLock \<or> k = Returned (v, None)) (callers st)"
      with nx show "(retrieve_calls (step P i st) = 0 \<and> cache (step P i st) = c \<and>
          list_all (\<lambda>k. k = AtReadLock \<or> k = AtWriteLock) (callers (step P i st))) \<or>
         (retrieve_calls (step P i st) = 1 \<and> cache (step P i st) = ?c' \<and>
          list_all (\<lambda>k. k = AtReadLock \<or> k = AtWriteLock \<or> k = Returned (v, None))
            (callers (step P i st)))"
        by (simp add: s Get_read_section_def list_all_update)
    qed
  next
    case AtWriteLock
    then have s: "step P i st =
        (case Get_write_section P (cache st) (retrieve_calls st) of
           (k, c', n') \<Rightarrow> st\<lparr>cache := c', callers := (callers st)[i := k], retrieve_calls := n'\<rparr>)"
      using i by (simp add: step_def)
    from inv show ?thesis
      unfolding refreshed_once_def
    proof (elim disjE conjE)
      assume "retrieve_calls st = 0" "cache st = c"
        and l: "list_all (\<lambda>k. k = AtReadLock \<or> k = AtWriteLock) (callers st)"
      moreover from l have "list_all (\<lambda>k. k = AtReadLock \<or> k = AtWriteLock \<or> k = Returned (v, None)) (callers st)"
        by (rule list_all_weaken) blast
      ultimately show "(retrieve_calls (step P i st) = 0 \<and> cache (step P i st) = c \<and>
          list_all (\<lambda>k. k = AtReadLock \<or> k = AtWriteLock) (callers (step P i st))) \<or>
         (retrieve_calls (step P i st) = 1 \<and> cache (step P i st) = ?c' \<and>
          list_all (\<lambda>k. k = AtReadLock \<or> k = AtWriteLock \<or> k = Returned (v, None))
            (callers (step P i st)))"
        using x r by (simp add: s Get_write_section_def list_all_update)
    next
      assume "retrieve_calls st = 1" "cache st = ?c'"
        and l: "list_all (\<lambda>k. k = AtReadLock \<or> k = AtWriteLock \<or> k = Returned (v, None)) (callers st)"
      with nx show "(retrieve_calls (step P i st) = 0 \<and> cache (step P i st) = c \<and>
          list_all (\<lambda>k. k = AtReadLock \<or> k = AtWriteLock) (callers (step P i st))) \<or>
         (retrieve_calls (step P i st) = 1 \<and> cache (step P i st) = ?c' \<and>
          list_all (\<lambda>k. k = AtReadLock \<or> k = AtWriteLock \<or> k = Returned (v, None))
            (callers (step P i st)))"
        by (simp add: s Get_write_section_def list_all_update)
    qed
  qed
qed

lemma refreshed_once_run:
  assumes "isExpired P c" and "Retrieve P (provider c) = ((v, None), p')" and "\<not> IsExpired P p'"
  shows "refreshed_once c v p' st \<Longrightarrow> refreshed_once c v p' (run P sched st)"
  by (induction sched arbitrary: st) (simp_all add: refreshed_once_step [OF assms])

lemma refreshed_once_start: "refreshed_once c v p' (concurrent_Get c N)"
  by (simp add: refreshed_once_def concurrent_Get_def list_all_iff)

lemma refresh_failing_step:
  assumes a: "\<And>p. snd (fst (Retrieve P p)) \<noteq> None"
    and inv: "refresh_failing st"
  shows "refresh_failing (step P i st)"
proof (cases "i < length (callers st)")
  case False
  with inv show ?thesis by (simp add: step_def)
next
  case True
  note i = this
  from inv have fr: "forceRefresh (cache st)"
    and n: "retrieve_calls st = length (filter (\<lambda>k. k \<noteq> AtReadLock \<and> k \<noteq> AtWriteLock) (callers st))"
    and l: "list_all (\<lambda>k. k = AtReadLock \<or> k = AtWriteLock \<or>
                    (\<exists>e. k = Returned (AuthValue_zero, Some e))) (callers st)"
    by (simp_all add: refresh_failing_def)
  from fr have x: "isExpired P (cache st)" by (simp add: isExpired_def)
  show ?thesis
  proof (cases "callers st ! i")
    case (Returned res)
    with i inv show ?thesis by (simp add: step_def)
  next
    case AtReadLock
    then have s: "step P i st = st\<lparr>callers := (callers st)[i := AtWriteLock]\<rparr>"
      using i x by (simp add: step_def Get_read_section_def)
    from i AtReadLock have "length (filter (\<lambda>k. k \<noteq> AtReadLock \<and> k \<noteq> AtWriteLock) ((callers st)[i := AtWriteLock])) =
        length (filter (\<lambda>k. k \<noteq> AtReadLock \<and> k \<noteq> AtWriteLock) (callers st))"
      by (intro filter_update_same) simp_all
    with fr n l show ?thesis
      by (simp add: refresh_failing_def s list_all_update)
  next
    case AtWriteLock
    obtain v e p' where r: "Retrieve P (provider (cache st)) = ((v, Some e), p')"
      using a [of "provider (cache st)"] by (cases "Retrieve P (provider (cache st))") auto
    from AtWriteLock i x r have s: "step P i st =
        st\<lparr>cache := (cache st)\<lparr>provider := p'\<rparr>,
           callers := (callers st)[i := Returned (AuthValue_zero, Some e)],
           retrieve_calls := Suc (retrieve_calls st)\<rparr>"
      by (simp add: step_def Get_write_section_def)
    from i AtWriteLock have "length (filter (\<lambda>k. k \<noteq> AtReadLock \<and> k \<noteq> AtWriteLock)
          ((callers st)[i := Returned (AuthValue_zero, Some e)])) =
        Suc (length (filter (\<lambda>k. k \<noteq> AtReadLock \<and> k \<noteq> AtWriteLock) (callers st)))"
      by (intro filter_update_count) simp_all
    with fr n l show ?thesis
      by (simp add: refresh_failing_def s list_all_update)
  qed
qed

lemma refresh_failing_run:
  assumes "\<And>p. snd (fst (Retrieve P p)) \<noteq> None"
  shows "refresh_failing st \<Longrightarrow> refresh_failing (run P sched st)"
  by (induction sched arbitrary: st) (simp_all add: refresh_failing_step [OF assms])

lemma refresh_failing_start: "forceRefresh c \<Longrightarrow> refresh_failing (concurrent_Get c N)"
  by (simp add: refresh_failing_def concurrent_Get_def list_all_iff)

lemma list_all_replicate:
  "list_all (\<lambda>k. k = y) xs \<Longrightarrow> xs = replicate (length xs) y"
  by (induction xs) auto

lemma filter_all: "list_all Q xs \<Longrightarrow> length (filter Q xs) = length xs"
  by (induction xs) auto

text \<open>
  Claim C9, amended. Let \<open>N\<close> callers enter \<open>Get\<close> on an expired cache and let all of them
  have returned, under any schedule of their critical sections. If \<open>Retrieve\<close> succeeds on
  the provider as it stands and leaves it unexpired, then \<open>Retrieve\<close> was invoked exactly
  once, and every caller received the retrieved value and no error: the later callers
  find the cache refreshed when they check again under the write lock. If instead the
  flag \<open>forceRefresh\<close> is set and \<open>Retrieve\<close> fails whenever called, then each caller finds the
  cache still expired and calls \<open>Retrieve\<close> itself: \<open>N\<close> invocations, each caller receiving
  the zero value and the error of its own call.
\<close>

theorem concurrent_Get_single_refresh:
  "(isExpired P c \<and> Retrieve P (provider c) = ((v, None), p') \<and> \<not> IsExpired P p' \<and>
    0 < N \<and> all_returned (run P sched (concurrent_Get c N)) \<longrightarrow>
      retrieve_calls (run P sched (concurrent_Get c N)) = 1 \<and>
      callers (run P sched (concurrent_Get c N)) = replicate N (Returned (v, None)) \<and>
      cache (run P sched (concurrent_Get c N)) = c\<lparr>creds := v, forceRefresh := False, provider := p'\<rparr>) \<and>
   (forceRefresh c \<and> (\<forall>p. snd (fst (Retrieve P p)) \<noteq> None) \<and>
    all_returned (run P sched (concurrent_Get c N)) \<longrightarrow>
      retrieve_calls (run P sched (concurrent_Get c N)) = N \<and>
      list_all (\<lambda>k. \<exists>e. k = Returned (AuthValue_zero, Some e))
        (callers (run P sched (concurrent_Get c N))))"
proof (intro conjI impI)
  let ?st = "run P sched (concurrent_Get c N)"
  assume a: "isExpired P c \<and> Retrieve P (provider c) = ((v, None), p') \<and> \<not> IsExpired P p' \<and>
    0 < N \<and> all_returned ?st"
  then have inv: "refreshed_once c v p' ?st"
    by (intro refreshed_once_run refreshed_once_start) simp_all
  have len: "length (callers ?st) = N"
    by (simp add: concurrent_Get_def)
  from a have ret: "list_all (\<lambda>k. k \<noteq> AtReadLock \<and> k \<noteq> AtWriteLock) (callers ?st)"
    by (simp add: all_returned_def)
  from a len obtain k ks where ne: "callers ?st = k # ks"
    by (cases "callers ?st") auto
  with ret have "\<not> list_all (\<lambda>k. k = AtReadLock \<or> k = AtWriteLock) (callers ?st)"
    by auto
  with inv have one: "retrieve_calls ?st = 1"
    and ch: "cache ?st = c\<lparr>creds := v, forceRefresh := False, provider := p'\<rparr>"
    and l: "list_all (\<lambda>k. k = AtReadLock \<or> k = AtWriteLock \<or> k = Returned (v, None)) (callers ?st)"
    by (auto simp add: refreshed_once_def)
  from l ret have "list_all (\<lambda>k. k = Returned (v, None)) (callers ?st)"
    by (auto simp add: list_all_iff)
  from list_all_replicate [OF this] len
  have "callers ?st = replicate N (Returned (v, None))" by simp
  with one ch show "retrieve_calls ?st = 1" "callers ?st = replicate N (Returned (v, None))"
    "cache ?st = c\<lparr>creds := v, forceRefresh := False, provider := p'\<rparr>"
    by simp_all
next
  let ?st = "run P sched (concurrent_Get c N)"
  assume a: "forceRefresh c \<and> (\<forall>p. snd (fst (Retrieve P p)) \<noteq> None) \<and> all_returned ?st"
  then have inv: "refresh_failing ?st"
    by (intro refresh_failing_run refresh_failing_start) simp_all
  have len: "length (callers ?st) = N"
    by (simp add: concurrent_Get_def)
  from a have ret: "list_all (\<lambda>k. k \<noteq> AtReadLock \<and> k \<noteq> AtWriteLock) (callers ?st)"
    by (simp add: all_returned_def)
  from inv filter_all [OF ret] len show "retrieve_calls ?st = N"
    by (simp add: refresh_failing_def)
  from inv ret show "list_all (\<lambda>k. \<exists>e. k = Returned (AuthValue_zero, Some e)) (callers ?st)"
    by (auto simp add: refresh_failing_def list_all_iff)
qed

text \<open>Three callers over valid static credentials, their sections interleaved.\<close>

theorem concurrent_Get_single_refresh_witness:
  "isExpired StaticProvider (NewStaticCredentialsFromCreds example_creds) \<and>
   Retrieve StaticProvider (provider (NewStaticCredentialsFromCreds example_creds)) =
     ((example_creds, None), example_creds) \<and>
   \<not> IsExpired StaticProvider example_creds \<and>
   all_returned (run StaticProvider [0, 1, 1, 2, 0, 2]
     (concurrent_Get (NewStaticCredentialsFromCreds example_creds) 3)) \<and>
   retrieve_calls (run StaticProvider [0, 1, 1, 2, 0, 2]
     (concurrent_Get (NewStaticCredentialsFromCreds example_creds) 3)) = 1 \<and>
   callers (run StaticProvider [0, 1, 1, 2, 0, 2]
     (concurrent_Get (NewStaticCredentialsFromCreds example_creds) 3)) =
     [Returned (example_creds, None), Returned (example_creds, None), Returned (example_creds, None)]"
proof -
  let ?c = "NewStaticCredentialsFromCreds example_creds"
  let ?st = "run StaticProvider [0, 1, 1, 2, 0, 2] (concurrent_Get ?c 3)"
  have x: "isExpired StaticProvider ?c"
    by (simp add: isExpired_def NewStaticCredentialsFromCreds_def NewCredentials_def)
  have r: "Retrieve StaticProvider (provider ?c) = ((example_creds, None), example_creds)"
    by (simp add: NewStaticCredentialsFromCreds_def NewCredentials_def StaticProvider_def
          StaticProvider_Retrieve_def example_creds_def Let_def)
  have f: "\<not> IsExpired StaticProvider example_creds"
    by (simp add: StaticProvider_def)
  have d: "all_returned ?st"
    by code_simp
  have n: "(0::nat) < 3" by simp
  from concurrent_Get_single_refresh [of StaticProvider ?c example_creds example_creds 3 "[0, 1, 1, 2, 0, 2]"]
    x r f n d
  have "retrieve_calls ?st = 1 \<and> callers ?st = replicate 3 (Returned (example_creds, None))"
    by blast
  then have "retrieve_calls ?st = 1 \<and>
     callers ?st = [Returned (example_creds, None), Returned (example_creds, None), Returned (example_creds, None)]"
    by (simp add: numeral_3_eq_3)
  with x r f d show ?thesis by blast
qed

text \<open>
  Claim C9 as stated fails for a refresh that fails: two callers on a new cache over
  empty static credentials invoke \<open>Retrieve\<close> twice, interleaved or one after the other.
\<close>

theorem concurrent_Get_failing_counterexample:
  "isExpired StaticProvider (NewStaticCredentialsFromCreds AuthValue_zero) \<and>
   all_returned (run StaticProvider [0, 1, 0, 1]
     (concurrent_Get (NewStaticCredentialsFromCreds AuthValue_zero) 2)) \<and>
   retrieve_calls (run StaticProvider [0, 1, 0, 1]
     (concurrent_Get (NewStaticCredentialsFromCreds AuthValue_zero) 2)) = 2 \<and>
   retrieve_calls (run StaticProvider [0, 0, 1, 1]
     (concurrent_Get (NewStaticCredentialsFromCreds AuthValue_zero) 2)) = 2"
  by code_simp

end
